theory Spec2Isabelle
  imports Complex_Main "HOL-Library.Word" "HOL-Library.Sublist" "HOL-Library.Multiset"
begin

section \<open>Errors\<close>

text \<open>
  Python exceptions are values. \<open>HTTPException\<close> carries the status code and the detail
  string of the FastAPI handler.
\<close>

datatype error =
    RuntimeError
  | KeyError string
  | ValueError
  | HTTPException nat string

section \<open>Dataset ingestion: deterministic split (deepfake\_metadata.py)\<close>

text \<open>
  \<^verbatim>\<open>SPLIT_THRESHOLDS = (0.8, 0.9)     # train<0.8, val<0.9, else test\<close>
\<close>

definition SPLIT_THRESHOLDS :: "real \<times> real" where
  "SPLIT_THRESHOLDS = (8 / 10, 9 / 10)"

text \<open>
  The value of one hexadecimal digit, \<open>None\<close> for any other character.
\<close>

definition hex_digit :: "char \<Rightarrow> nat option" where
  "hex_digit c =
     (let n = (of_char c :: nat) in
      if 48 \<le> n \<and> n \<le> 57 then Some (n - 48)
      else if 97 \<le> n \<and> n \<le> 102 then Some (n - 87)
      else if 65 \<le> n \<and> n \<le> 70 then Some (n - 55)
      else None)"

definition is_hex :: "char \<Rightarrow> bool" where
  "is_hex c = (hex_digit c \<noteq> None)"

text \<open>The positional value of a string of hexadecimal digits, most significant first.\<close>

definition hex_value :: "string \<Rightarrow> int" where
  "hex_value s = foldl (\<lambda>acc c. 16 * acc + int (the (hex_digit c))) 0 s"

text \<open>
  \<^verbatim>\<open>int(s, 16)\<close> on a checksum prefix. The checksums come from
  \<^verbatim>\<open>hashlib.sha256(b).hexdigest()\<close>, strings of hexadecimal digits; on those the
  result is the positional value, and the empty string raises \<open>ValueError\<close>. Python
  also accepts a sign, a \<^verbatim>\<open>0x\<close> prefix, underscores and surrounding blanks;
  the model answers \<open>ValueError\<close> for every string that is not made of hexadecimal
  digits only, and nothing below is stated about such strings.
\<close>

definition int_base16 :: "string \<Rightarrow> error + int" where
  "int_base16 s =
     (if s = [] \<or> \<not> list_all is_hex s then Inl ValueError else Inr (hex_value s))"

text \<open>
  \<^verbatim>\<open>
  def assign_split_from_checksum(sha: str) -> str:
      r = int(sha[:8], 16) / 0xFFFFFFFF
      t, v = SPLIT_THRESHOLDS
      if r < t: return "train"
      if r < v: return "val"
      return "test"
  \<close>
  The quotient is a float in the source and a real here. The comparisons agree: the
  only integer \<open>n\<close> with \<open>n / 0xFFFFFFFF\<close> within rounding distance of a threshold is
  \<open>n = 3435973836\<close>, where the quotient is exactly \<open>4/5\<close>, correctly rounded to the
  same double as the literal \<^verbatim>\<open>0.8\<close>, so that \<^verbatim>\<open>r < t\<close> is false in both.
\<close>

definition assign_split_from_checksum :: "string \<Rightarrow> error + string" where
  "assign_split_from_checksum sha =
     (case int_base16 (take 8 sha) of
        Inl e \<Rightarrow> Inl e
      | Inr n \<Rightarrow>
          (let r = real_of_int n / 4294967295;
               (t, v) = SPLIT_THRESHOLDS
           in if r < t then Inr ''train''
              else if r < v then Inr ''val''
              else Inr ''test''))"

section \<open>Model artifacts (deepfake\_model\_ela\_rf.py)\<close>

text \<open>\<^verbatim>\<open>TOP_N_BOXES = 10\<close>\<close>

definition TOP_N_BOXES :: nat where
  "TOP_N_BOXES = 10"

text \<open>
  \<^verbatim>\<open>
  @dataclass
  class ElaConfig:
      ela_quality: int
      threshold_multiplier: float
      min_region_size: int
      enhancement_strength: float
      feature_names: List[str]
  \<close>
\<close>

record ElaConfig =
  ela_quality :: int
  threshold_multiplier :: real
  min_region_size :: int
  enhancement_strength :: real
  feature_names :: "string list"

text \<open>
  The dictionary read from \<^verbatim>\<open>feature_config.json\<close>: each of the five keys the loader
  looks up is present with a value of the type the dataclass announces, or absent.
\<close>

record config_dict =
  cfg_ela_quality :: "int option"
  cfg_threshold_multiplier :: "real option"
  cfg_min_region_size :: "int option"
  cfg_enhancement_strength :: "real option"
  cfg_feature_names :: "string list option"

text \<open>
  The trained classifier and the scaler are opaque objects used through three methods.
  \<open>predict_proba\<close> gives the pair \<open>(p_real, p_fake)\<close> of the first row.
\<close>

record rf_model =
  predict :: "real list \<Rightarrow> int"
  predict_proba :: "real list \<Rightarrow> real \<times> real"

record scaler =
  transform :: "real list \<Rightarrow> real list"

text \<open>
  The directory \<^verbatim>\<open>feature_model_output/\<close>: each of the three files holds its
  content, or does not exist (\<open>None\<close>).
\<close>

record artifact_files =
  MODEL_PATH :: "rf_model option"
  SCALER_PATH :: "scaler option"
  CONFIG_PATH :: "config_dict option"

text \<open>\<^verbatim>\<open>config[key]\<close>: \<open>KeyError\<close> when the key is absent.\<close>

definition subscript :: "'a option \<Rightarrow> string \<Rightarrow> error + 'a" where
  "subscript v key = (case v of None \<Rightarrow> Inl (KeyError key) | Some x \<Rightarrow> Inr x)"

text \<open>\<^verbatim>\<open>config.get(key, default)\<close>\<close>

definition get_default :: "'a option \<Rightarrow> 'a \<Rightarrow> 'a" where
  "get_default v d = (case v of None \<Rightarrow> d | Some x \<Rightarrow> x)"

text \<open>
  \<^verbatim>\<open>
  def _load_artifacts() -> tuple[Any, Any, ElaConfig]:
      if not (MODEL_PATH.exists() and SCALER_PATH.exists() and CONFIG_PATH.exists()):
          raise RuntimeError("Model artifacts missing. ...")
      rf_model = joblib.load(MODEL_PATH)
      scaler = joblib.load(SCALER_PATH)
      with open(CONFIG_PATH, "r") as f:
          config = json.load(f)
      ela_cfg = ElaConfig(
          ela_quality=config["ela_quality"],
          threshold_multiplier=config["threshold_multiplier"],
          min_region_size=config["min_region_size"],
          enhancement_strength=config["enhancement_strength"],
          feature_names=config.get("feature_names", []),
      )
      return rf_model, scaler, ela_cfg
  \<close>
  The keyword arguments are evaluated in the order written, so the first absent key is
  the one reported.
\<close>

definition load_artifacts :: "artifact_files \<Rightarrow> error + (rf_model \<times> scaler \<times> ElaConfig)" where
  "load_artifacts fs =
     (case (MODEL_PATH fs, SCALER_PATH fs, CONFIG_PATH fs) of
        (Some m, Some sc, Some config) \<Rightarrow>
          (case subscript (cfg_ela_quality config) ''ela_quality'' of
             Inl e \<Rightarrow> Inl e
           | Inr q \<Rightarrow>
          (case subscript (cfg_threshold_multiplier config) ''threshold_multiplier'' of
             Inl e \<Rightarrow> Inl e
           | Inr t \<Rightarrow>
          (case subscript (cfg_min_region_size config) ''min_region_size'' of
             Inl e \<Rightarrow> Inl e
           | Inr a \<Rightarrow>
          (case subscript (cfg_enhancement_strength config) ''enhancement_strength'' of
             Inl e \<Rightarrow> Inl e
           | Inr s \<Rightarrow>
               Inr (m, sc,
                    \<lparr>ela_quality = q, threshold_multiplier = t, min_region_size = a,
                     enhancement_strength = s,
                     feature_names = get_default (cfg_feature_names config) []\<rparr>)))))
      | _ \<Rightarrow> Inl RuntimeError)"

section \<open>Top-N selection for the overlays\<close>

text \<open>A bounding box \<open>(x, y, width, height)\<close> of Python integers.\<close>

type_synonym box = "int \<times> int \<times> int \<times> int"

text \<open>
  \<^verbatim>\<open>
  boxes_with_sizes = list(zip(boxes, [b[2] * b[3] for b in boxes]))
  boxes_sorted = sorted(boxes_with_sizes, key=lambda x: x[1], reverse=True)
  top_boxes = [b for b, _ in boxes_sorted[:TOP_N_BOXES]]
  \<close>
  Python's \<^verbatim>\<open>sorted\<close> is stable also with \<^verbatim>\<open>reverse=True\<close>: elements with equal
  keys keep their order. That is the stable ascending sort on the negated key.
\<close>

definition box_area :: "box \<Rightarrow> int" where
  "box_area b = (case b of (x, y, w, h) \<Rightarrow> w * h)"

definition boxes_sorted :: "box list \<Rightarrow> (box \<times> int) list" where
  "boxes_sorted boxes =
     (let boxes_with_sizes = zip boxes (map box_area boxes)
      in sort_key (\<lambda>p. - snd p) boxes_with_sizes)"

definition top_boxes :: "box list \<Rightarrow> box list" where
  "top_boxes boxes = map fst (take TOP_N_BOXES (boxes_sorted boxes))"

section \<open>Arrays\<close>

text \<open>
  The error map is a two-dimensional \<^verbatim>\<open>uint8\<close> array: a list of rows of 8-bit words,
  all rows of one length. Floats are modelled as reals. Label arrays hold natural
  numbers, 0 for the background.
\<close>

type_synonym pixel = "8 word"
type_synonym 'a grid = "'a list list"

text \<open>\<^verbatim>\<open>a.size\<close>\<close>

definition array_size :: "'a grid \<Rightarrow> nat" where
  "array_size a = length (concat a)"

text \<open>The pixel values as reals, in row-major order.\<close>

definition pixel_values :: "pixel grid \<Rightarrow> real list" where
  "pixel_values a = map (\<lambda>v. real (unat v)) (concat a)"

text \<open>\<^verbatim>\<open>int(np.sum(mask))\<close>: the number of true entries.\<close>

definition count_true :: "bool grid \<Rightarrow> nat" where
  "count_true m = length (filter id (concat m))"

text \<open>\<^verbatim>\<open>np.mean\<close> of a non-empty array (of an empty one it is \<^verbatim>\<open>nan\<close>).\<close>

definition np_mean :: "real list \<Rightarrow> real" where
  "np_mean xs = sum_list xs / real (length xs)"

text \<open>\<^verbatim>\<open>np.std\<close>: the population standard deviation.\<close>

definition np_std :: "real list \<Rightarrow> real" where
  "np_std xs = sqrt (np_mean (map (\<lambda>x. (x - np_mean xs)\<^sup>2) xs))"

text \<open>\<^verbatim>\<open>np.max\<close> and \<^verbatim>\<open>np.min\<close>: \<open>ValueError\<close> on an empty array.\<close>

definition np_max :: "('a::linorder) list \<Rightarrow> error + 'a" where
  "np_max xs = (case xs of [] \<Rightarrow> Inl ValueError | x # r \<Rightarrow> Inr (fold max r x))"

definition np_min :: "('a::linorder) list \<Rightarrow> error + 'a" where
  "np_min xs = (case xs of [] \<Rightarrow> Inl ValueError | x # r \<Rightarrow> Inr (fold min r x))"

text \<open>
  \<^verbatim>\<open>np.percentile(a, q)\<close> with the default linear interpolation, on a non-empty
  array: the value at the virtual index \<open>q / 100 * (n - 1)\<close> of the sorted data.
\<close>

definition np_percentile :: "real list \<Rightarrow> real \<Rightarrow> real" where
  "np_percentile xs q =
     (let s = sort xs;
          pos = q / 100 * real (length xs - 1);
          lo = nat \<lfloor>pos\<rfloor>;
          hi = min (lo + 1) (length xs - 1)
      in s ! lo + (s ! hi - s ! lo) * (pos - real lo))"

text \<open>\<^verbatim>\<open>np.median\<close> of a non-empty array: the middle value, or the mean of the two.\<close>

definition np_median :: "real list \<Rightarrow> real" where
  "np_median xs =
     (let s = sort xs; n = length xs
      in if even n then (s ! (n div 2 - 1) + s ! (n div 2)) / 2 else s ! (n div 2))"

text \<open>
  \<^verbatim>\<open>np.histogram(a, bins=10, range=(0, 255))\<close>: ten equal bins with edges
  \<open>25.5 * i\<close>, each closed on the left and open on the right, the last one closed on
  both sides.
\<close>

definition in_bin :: "nat \<Rightarrow> real \<Rightarrow> bool" where
  "in_bin i v =
     (255 * real i / 10 \<le> v \<and> (v < 255 * real (i + 1) / 10 \<or> (i = 9 \<and> v = 255)))"

definition np_histogram :: "real list \<Rightarrow> nat list" where
  "np_histogram xs = map (\<lambda>i. length (filter (in_bin i) xs)) [0..<10]"

text \<open>
  \<^verbatim>\<open>np.diff(a, axis=0)\<close> and \<^verbatim>\<open>np.diff(a, axis=1)\<close> on a \<^verbatim>\<open>uint8\<close> array: the
  differences are \<^verbatim>\<open>uint8\<close> too and wrap around.
\<close>

definition diff_axis0 :: "pixel grid \<Rightarrow> pixel grid" where
  "diff_axis0 a = map2 (\<lambda>r1 r2. map2 (\<lambda>p q. q - p) r1 r2) a (tl a)"

definition diff_axis1 :: "pixel grid \<Rightarrow> pixel grid" where
  "diff_axis1 a = map (\<lambda>r. map2 (\<lambda>p q. q - p) r (tl r)) a"

text \<open>
  \<^verbatim>\<open>float(np.abs(d).sum())\<close>: the absolute value of an unsigned number is itself, and
  the sum is taken in 64 bits.
\<close>

definition abs_sum :: "pixel grid \<Rightarrow> real" where
  "abs_sum d = real (sum_list (map unat (concat d)))"

section \<open>Region extraction\<close>

text \<open>\<^verbatim>\<open>np.argwhere(labeled_array == i)\<close>: the \<open>(y, x)\<close> positions, row by row.\<close>

definition argwhere :: "nat grid \<Rightarrow> nat \<Rightarrow> (nat \<times> nat) list" where
  "argwhere labeled i =
     concat (map (\<lambda>(y, row). map (\<lambda>(x, l). (y, x)) (filter (\<lambda>(x, l). l = i) (enumerate 0 row)))
                 (enumerate 0 labeled))"

text \<open>
  \<^verbatim>\<open>a[labeled_array == i]\<close>: the values of \<open>a\<close> where the mask holds, row by row.
\<close>

definition masked_values :: "pixel grid \<Rightarrow> bool grid \<Rightarrow> real list" where
  "masked_values a m =
     map (\<lambda>(v, b). real (unat v)) (filter snd (zip (concat a) (concat m)))"

text \<open>
  A pair of slices \<open>((y_start, y_stop), (x_start, x_stop))\<close>, stops exclusive, and
  \<^verbatim>\<open>a[slice_obj]\<close>.
\<close>

type_synonym slice2 = "(nat \<times> nat) \<times> (nat \<times> nat)"

definition crop :: "slice2 \<Rightarrow> 'a grid \<Rightarrow> 'a grid" where
  "crop sl a =
     (case sl of ((y0, y1), (x0, x1)) \<Rightarrow>
        map (\<lambda>row. take (x1 - x0) (drop x0 row)) (take (y1 - y0) (drop y0 a)))"

text \<open>
  \<^verbatim>\<open>scipy.ndimage.find_objects(labeled_array)\<close>: for every label from 1 to the largest
  one in the array, the smallest pair of slices that contains the label, or \<^verbatim>\<open>None\<close>
  when the label does not occur.
\<close>

definition max_label :: "nat grid \<Rightarrow> nat" where
  "max_label labeled = fold max (concat labeled) 0"

definition bounding_slice :: "(nat \<times> nat) list \<Rightarrow> slice2 option" where
  "bounding_slice coords =
     (case coords of
        [] \<Rightarrow> None
      | (y, x) # r \<Rightarrow>
          Some ((fold min (map fst r) y, fold max (map fst r) y + 1),
                (fold min (map snd r) x, fold max (map snd r) x + 1)))"

definition find_objects :: "nat grid \<Rightarrow> slice2 option list" where
  "find_objects labeled =
     map (\<lambda>i. bounding_slice (argwhere labeled i)) [1..<Suc (max_label labeled)]"

text \<open>The three result lists, appended to in step.\<close>

type_synonym regions = "box list \<times> int list \<times> real list"

text \<open>
  The body of the loop of the bounding-slice strategy, for label \<open>i\<close> and its slice:
  \<^verbatim>\<open>
  for i, slice_obj in enumerate(slices, 1):
      if slice_obj is None:
          continue
      region_mask = labeled_array[slice_obj] == i
      region_size = int(np.sum(region_mask))
      if region_size < min_area:
          continue
      y_slice, x_slice = slice_obj
      y_min, y_max = y_slice.start, y_slice.stop
      x_min, x_max = x_slice.start, x_slice.stop
      width, height = x_max - x_min, y_max - y_min
      if width > 10 and height > 10:
          boxes.append((x_min, y_min, width, height))
          region_sizes.append(region_size)
          region_values = ela_array[slice_obj][region_mask]
          region_intensities.append(float(np.mean(region_values)))
  \<close>
\<close>

definition slice_step ::
  "pixel grid \<Rightarrow> nat grid \<Rightarrow> int \<Rightarrow> nat \<times> slice2 option \<Rightarrow> regions \<Rightarrow> regions" where
  "slice_step ela_array labeled_array min_area item acc =
     (case item of
        (i, None) \<Rightarrow> acc
      | (i, Some slice_obj) \<Rightarrow>
          (let region_mask = map (map (\<lambda>l. l = i)) (crop slice_obj labeled_array);
               region_size = int (count_true region_mask)
           in if region_size < min_area then acc
              else
                (case slice_obj of ((y_min, y_max), (x_min, x_max)) \<Rightarrow>
                   (let width = int x_max - int x_min; height = int y_max - int y_min
                    in if width > 10 \<and> height > 10 then
                         (case acc of (boxes, region_sizes, region_intensities) \<Rightarrow>
                            (boxes @ [(int x_min, int y_min, width, height)],
                             region_sizes @ [region_size],
                             region_intensities @
                               [np_mean (masked_values (crop slice_obj ela_array) region_mask)]))
                       else acc))))"

definition slice_strategy :: "pixel grid \<Rightarrow> nat grid \<Rightarrow> int \<Rightarrow> regions" where
  "slice_strategy ela_array labeled_array min_area =
     fold (slice_step ela_array labeled_array min_area)
          (enumerate 1 (find_objects labeled_array)) ([], [], [])"

text \<open>
  The body of the loop of the coordinate-enumeration strategy:
  \<^verbatim>\<open>
  for i in range(1, num_features + 1):
      coords = np.argwhere(labeled_array == i)
      if len(coords) < min_area:
          continue
      y_min, x_min = coords.min(axis=0)
      y_max, x_max = coords.max(axis=0)
      width, height = x_max - x_min, y_max - y_min
      if width > 10 and height > 10:
          boxes.append((int(x_min), int(y_min), int(width), int(height)))
          region_sizes.append(int(len(coords)))
          region_values = ela_array[labeled_array == i]
          region_intensities.append(float(np.mean(region_values)))
  \<close>
  \<^verbatim>\<open>coords.min(axis=0)\<close> of an empty array raises \<open>ValueError\<close>.
\<close>

definition coords_step ::
  "pixel grid \<Rightarrow> nat grid \<Rightarrow> int \<Rightarrow> nat \<Rightarrow> regions \<Rightarrow> error + regions" where
  "coords_step ela_array labeled_array min_area i acc =
     (let coords = argwhere labeled_array i
      in if int (length coords) < min_area then Inr acc
         else
           (case (np_min (map fst coords), np_min (map snd coords),
                  np_max (map fst coords), np_max (map snd coords)) of
              (Inr y_min, Inr x_min, Inr y_max, Inr x_max) \<Rightarrow>
                (let width = int x_max - int x_min; height = int y_max - int y_min
                 in if width > 10 \<and> height > 10 then
                      (case acc of (boxes, region_sizes, region_intensities) \<Rightarrow>
                         Inr (boxes @ [(int x_min, int y_min, width, height)],
                              region_sizes @ [int (length coords)],
                              region_intensities @
                                [np_mean (masked_values ela_array
                                   (map (map (\<lambda>l. l = i)) labeled_array))]))
                    else Inr acc)
            | _ \<Rightarrow> Inl ValueError))"

fun coords_loop ::
  "pixel grid \<Rightarrow> nat grid \<Rightarrow> int \<Rightarrow> nat list \<Rightarrow> regions \<Rightarrow> error + regions" where
  "coords_loop ela_array labeled_array min_area [] acc = Inr acc"
| "coords_loop ela_array labeled_array min_area (i # rest) acc =
     (case coords_step ela_array labeled_array min_area i acc of
        Inl e \<Rightarrow> Inl e
      | Inr acc' \<Rightarrow> coords_loop ela_array labeled_array min_area rest acc')"

definition coords_strategy :: "pixel grid \<Rightarrow> nat grid \<Rightarrow> nat \<Rightarrow> int \<Rightarrow> error + regions" where
  "coords_strategy ela_array labeled_array num_features min_area =
     coords_loop ela_array labeled_array min_area [1..<Suc num_features] ([], [], [])"

section \<open>External operations\<close>

text \<open>
  The image codec and the two scipy operations are taken as they are:
  \<^item> \<open>image_open\<close>: \<^verbatim>\<open>Image.open(io.BytesIO(contents)).convert("RGB")\<close>, \<open>None\<close> when
    it raises \<^verbatim>\<open>UnidentifiedImageError\<close>;
  \<^item> \<open>perform_ela\<close>: the recompression difference of an image at a JPEG quality
    and an enhancement strength, as a grayscale array;
  \<^item> \<open>ndimage_label\<close>: \<^verbatim>\<open>scipy.ndimage.label\<close>, the labelled array and the number
    of components;
  \<^item> \<open>binary_opening\<close>: \<^verbatim>\<open>scipy.ndimage.binary_opening\<close> with the 2 by 2 structuring
    element and one iteration.
\<close>

record 'img externals =
  image_open :: "nat list \<Rightarrow> 'img option"
  perform_ela :: "'img \<Rightarrow> int \<Rightarrow> real \<Rightarrow> pixel grid"
  ndimage_label :: "bool grid \<Rightarrow> nat grid \<times> nat"
  binary_opening :: "bool grid \<Rightarrow> bool grid"

text \<open>\<^verbatim>\<open>ela_array > threshold\<close>\<close>

definition suspicious_mask :: "pixel grid \<Rightarrow> real \<Rightarrow> bool grid" where
  "suspicious_mask ela_array threshold = map (map (\<lambda>v. threshold < real (unat v))) ela_array"

text \<open>
  \<^verbatim>\<open>
  def find_suspicious_regions(ela_array, threshold, min_area=50):
      suspicious_mask = ela_array > threshold
      num_suspicious = int(np.sum(suspicious_mask))
      if num_suspicious == 0:
          return [], [], []
      noise_threshold_pct = 15
      if (num_suspicious / ela_array.size * 100) > noise_threshold_pct:
          structure = np.ones((2, 2))
          suspicious_mask = binary_opening(suspicious_mask, structure=structure, iterations=1)
      labeled_array, num_features = ndimage.label(suspicious_mask)
      if num_features == 0:
          return [], [], []
      if num_features > 1000:
          ... bounding-slice strategy ...
      else:
          ... coordinate-enumeration strategy ...
      return boxes, region_sizes, region_intensities
  \<close>
  \<open>suppress_noise\<close> is the conditional opening; its quotient is taken when
  \<open>num_suspicious\<close> is positive, so the array is not empty there. (In doubles the
  percentage of a fraction of exactly 15 percent may round to either side of 15; the
  reals put it at 15.)
\<close>

definition suppress_noise :: "'img externals \<Rightarrow> pixel grid \<Rightarrow> bool grid \<Rightarrow> bool grid" where
  "suppress_noise ext ela_array msk =
     (let num_suspicious = count_true msk;
          noise_threshold_pct = 15
      in if real num_suspicious / real (array_size ela_array) * 100 > noise_threshold_pct
         then binary_opening ext msk else msk)"

definition find_suspicious_regions ::
  "'img externals \<Rightarrow> pixel grid \<Rightarrow> real \<Rightarrow> int \<Rightarrow> error + regions" where
  "find_suspicious_regions ext ela_array threshold min_area =
     (let msk = suspicious_mask ela_array threshold;
          num_suspicious = count_true msk
      in if num_suspicious = 0 then Inr ([], [], [])
         else
           (case ndimage_label ext (suppress_noise ext ela_array msk) of
              (labeled_array, num_features) \<Rightarrow>
                if num_features = 0 then Inr ([], [], [])
                else if num_features > 1000 then
                  Inr (slice_strategy ela_array labeled_array min_area)
                else coords_strategy ela_array labeled_array num_features min_area))"

section \<open>Feature extraction\<close>

text \<open>
  The result of \<^verbatim>\<open>extract_features\<close>:
  \<^verbatim>\<open>(features, ela_array, threshold, boxes, feature_dict)\<close>.
\<close>

type_synonym extraction = "real list \<times> pixel grid \<times> real \<times> box list \<times> (string \<times> real) list"

text \<open>
  The body of \<^verbatim>\<open>extract_features\<close> after its first line, on the error map:
  \<^verbatim>\<open>
  mean_error = float(np.mean(ela_array))
  max_error = float(np.max(ela_array))
  std_error = float(np.std(ela_array))
  median_error = float(np.median(ela_array))
  threshold = mean_error + (ELA_CFG.threshold_multiplier * std_error)
  suspicious_pixels = int(np.sum(ela_array > threshold))
  suspicious_percentage = (suspicious_pixels / ela_array.size) * 100
  boxes, region_sizes, region_intensities = find_suspicious_regions(
      ela_array, threshold, min_area=ELA_CFG.min_region_size)
  num_regions = len(boxes)
  avg_region_size = float(np.mean(region_sizes)) if region_sizes else 0.0
  max_region_size = float(np.max(region_sizes)) if region_sizes else 0.0
  avg_region_intensity = float(np.mean(region_intensities)) if region_intensities else 0.0
  region_size_std = float(np.std(region_sizes)) if region_sizes else 0.0
  hist, _ = np.histogram(ela_array, bins=10, range=(0, 255))
  hist_norm = hist / ela_array.size
  p25, p50, p75, p90, p95 = np.percentile(ela_array, [25, 50, 75, 90, 95])
  edges_h = float(np.abs(np.diff(ela_array, axis=0)).sum())
  edges_v = float(np.abs(np.diff(ela_array, axis=1)).sum())
  features = np.concatenate([
      [mean_error, max_error, std_error, median_error, threshold,
       suspicious_pixels, suspicious_percentage],
      [num_regions, avg_region_size, max_region_size, avg_region_intensity, region_size_std],
      hist_norm,
      [p25, p50, p75, p90, p95],
      [edges_h, edges_v]])
  \<close>
  \<^verbatim>\<open>np.max\<close> is the first operation that raises on an empty array.
  \<open>region_aggregates\<close> is the second list of the concatenation, with the five lines
  that compute its entries.
\<close>

definition region_aggregates :: "box list \<Rightarrow> int list \<Rightarrow> real list \<Rightarrow> real list" where
  "region_aggregates boxes region_sizes region_intensities =
     (let num_regions = length boxes;
          avg_region_size =
            (if region_sizes \<noteq> [] then np_mean (map real_of_int region_sizes) else 0);
          max_region_size =
            (case region_sizes of [] \<Rightarrow> 0 | s # r \<Rightarrow> real_of_int (fold max r s));
          avg_region_intensity =
            (if region_intensities \<noteq> [] then np_mean region_intensities else 0);
          region_size_std =
            (if region_sizes \<noteq> [] then np_std (map real_of_int region_sizes) else 0)
      in [real num_regions, avg_region_size, max_region_size, avg_region_intensity,
          region_size_std])"

definition extract_features_ela ::
  "'img externals \<Rightarrow> ElaConfig \<Rightarrow> pixel grid \<Rightarrow> error + extraction" where
  "extract_features_ela ext ELA_CFG ela_array =
     (let vals = pixel_values ela_array;
          mean_error = np_mean vals
      in case np_max vals of
           Inl e \<Rightarrow> Inl e
         | Inr max_error \<Rightarrow>
      (let std_error = np_std vals;
           median_error = np_median vals;
           threshold = mean_error + threshold_multiplier ELA_CFG * std_error;
           suspicious_pixels = count_true (suspicious_mask ela_array threshold);
           suspicious_percentage =
             real suspicious_pixels / real (array_size ela_array) * 100
       in case find_suspicious_regions ext ela_array threshold (min_region_size ELA_CFG) of
            Inl e \<Rightarrow> Inl e
          | Inr (boxes, region_sizes, region_intensities) \<Rightarrow>
      (let num_regions = length boxes;
           hist = np_histogram vals;
           hist_norm = map (\<lambda>c. real c / real (array_size ela_array)) hist;
           percentiles = map (np_percentile vals) [25, 50, 75, 90, 95];
           edges_h = abs_sum (diff_axis0 ela_array);
           edges_v = abs_sum (diff_axis1 ela_array);
           features =
             [mean_error, max_error, std_error, median_error, threshold,
              real suspicious_pixels, suspicious_percentage]
             @ region_aggregates boxes region_sizes region_intensities
             @ hist_norm
             @ percentiles
             @ [edges_h, edges_v];
           feature_dict =
             [(''mean_error'', mean_error), (''max_error'', max_error),
              (''std_error'', std_error), (''median_error'', median_error),
              (''threshold'', threshold), (''suspicious_pixels'', real suspicious_pixels),
              (''suspicious_percentage'', suspicious_percentage),
              (''num_regions'', real num_regions)]
       in Inr (features, ela_array, threshold, boxes, feature_dict))))"

text \<open>
  \<^verbatim>\<open>
  def extract_features(pil_img):
      ela_array = perform_ela(pil_img, quality=ELA_CFG.ela_quality,
                              enhancement=ELA_CFG.enhancement_strength)
      ...
  \<close>
\<close>

definition extract_features :: "'img externals \<Rightarrow> ElaConfig \<Rightarrow> 'img \<Rightarrow> error + extraction" where
  "extract_features ext ELA_CFG pil_img =
     extract_features_ela ext ELA_CFG
       (perform_ela ext pil_img (ela_quality ELA_CFG) (enhancement_strength ELA_CFG))"

section \<open>Heatmap normalisation\<close>

text \<open>
  \<^verbatim>\<open>
  def _ela_heatmap_image(ela_array):
      ptp_val = np.ptp(ela_array)
      normalized = (ela_array - ela_array.min()) / (ptp_val or 1)
      ...
  \<close>
  \<open>heatmap_divisor\<close> is \<^verbatim>\<open>(ptp_val or 1)\<close>; \<open>ela_heatmap_normalized\<close> is the array
  handed to the colour map. \<^verbatim>\<open>np.ptp\<close> raises \<open>ValueError\<close> on an empty array.
\<close>

definition np_ptp :: "pixel grid \<Rightarrow> error + pixel" where
  "np_ptp a =
     (case (np_max (concat a), np_min (concat a)) of
        (Inr mx, Inr mn) \<Rightarrow> Inr (mx - mn)
      | _ \<Rightarrow> Inl ValueError)"

definition heatmap_divisor :: "pixel \<Rightarrow> real" where
  "heatmap_divisor ptp_val = (if ptp_val = 0 then 1 else real (unat ptp_val))"

definition ela_heatmap_normalized :: "pixel grid \<Rightarrow> error + real grid" where
  "ela_heatmap_normalized ela_array =
     (case np_ptp ela_array of
        Inl e \<Rightarrow> Inl e
      | Inr ptp_val \<Rightarrow>
          (case np_min (concat ela_array) of
             Inl e \<Rightarrow> Inl e
           | Inr mn \<Rightarrow>
               Inr (map (map (\<lambda>v. real (unat (v - mn)) / heatmap_divisor ptp_val)) ela_array)))"

section \<open>The request handler\<close>

record analysis_panel =
  label :: string
  probabilities :: "real \<times> real"
  fake_probability :: real
  is_fake :: bool

record explainability =
  ela_heatmap :: "real grid"
  rendered_boxes :: "box list"
  threshold_value :: real
  feature_summary :: "(string \<times> real) list"

record response =
  filename :: string
  analysis :: analysis_panel
  explain :: explainability

text \<open>
  \<^verbatim>\<open>
  async def analyze_image(image):
      contents = await image.read()
      if not contents:
          raise HTTPException(status_code=400, detail="Uploaded file is empty.")
      try:
          pil_img = Image.open(io.BytesIO(contents)).convert("RGB")
      except UnidentifiedImageError as exc:
          raise HTTPException(status_code=400, detail="Unsupported or corrupted image upload.")
      features, ela_array, threshold, boxes, feature_dict = extract_features(pil_img)
      features_scaled = SCALER.transform(features.reshape(1, -1))
      pred = RF_MODEL.predict(features_scaled)[0]
      proba = RF_MODEL.predict_proba(features_scaled)[0]
      real_prob = float(proba[0])
      fake_prob = float(proba[1])
      is_fake = bool(pred == 1)
      ... top_boxes ...
      ela_heatmap = _ela_heatmap_image(ela_array)
      response = {...  "label": "FAKE" if is_fake else "REAL",
                       "probabilities": {"real": real_prob, "fake": fake_prob},
                       "fake_probability": fake_prob, "is_fake": is_fake, ...
                       "top_boxes": top_boxes, "threshold": threshold,
                       "feature_summary": feature_dict}
      return response
  \<close>
  The rendered images are left out; of the heat map the normalised values are kept.
  \<^verbatim>\<open>extract_features\<close> never returns \<^verbatim>\<open>None\<close> for the features, so the
  handler's status 500 branch is not reached; an exception of \<^verbatim>\<open>extract_features\<close>
  propagates.
\<close>

definition analyze_image ::
  "'img externals \<Rightarrow> rf_model \<times> scaler \<times> ElaConfig \<Rightarrow> string \<Rightarrow> nat list \<Rightarrow> error + response" where
  "analyze_image ext artifacts name contents =
     (case artifacts of (RF_MODEL, SCALER, ELA_CFG) \<Rightarrow>
      if contents = [] then Inl (HTTPException 400 ''Uploaded file is empty.'')
      else
        (case image_open ext contents of
           None \<Rightarrow> Inl (HTTPException 400 ''Unsupported or corrupted image upload.'')
         | Some pil_img \<Rightarrow>
             (case extract_features ext ELA_CFG pil_img of
                Inl e \<Rightarrow> Inl e
              | Inr (features, ela_array, threshold, boxes, feature_dict) \<Rightarrow>
                  (let features_scaled = transform SCALER features;
                       pred = predict RF_MODEL features_scaled;
                       proba = predict_proba RF_MODEL features_scaled;
                       real_prob = fst proba;
                       fake_prob = snd proba;
                       is_fake = (pred = 1)
                   in case ela_heatmap_normalized ela_array of
                        Inl e \<Rightarrow> Inl e
                      | Inr heat \<Rightarrow>
                          Inr \<lparr>filename = name,
                               analysis =
                                 \<lparr>label = (if is_fake then ''FAKE'' else ''REAL''),
                                  probabilities = (real_prob, fake_prob),
                                  fake_probability = fake_prob,
                                  is_fake = is_fake\<rparr>,
                               explain =
                                 \<lparr>ela_heatmap = heat,
                                  rendered_boxes = top_boxes boxes,
                                  threshold_value = threshold,
                                  feature_summary = feature_dict\<rparr>\<rparr>))))"

text \<open>
  A labelling for examples: every suspicious pixel gets label 1. It is what
  \<^verbatim>\<open>scipy.ndimage.label\<close> returns on a mask whose true pixels form one connected
  component (or none).
\<close>

definition label_single :: "bool grid \<Rightarrow> nat grid \<times> nat" where
  "label_single m =
     (map (map (\<lambda>b. if b then 1 else 0)) m, if count_true m = 0 then 0 else 1)"

section \<open>Fixtures for the examples\<close>

text \<open>
  A classifier that always answers FAKE with probability 0.9, the identity scaler, and a
  configuration file without the list of feature names.
\<close>

definition stub_model :: rf_model where
  "stub_model = \<lparr>predict = (\<lambda>v. 1), predict_proba = (\<lambda>v. (1 / 10, 9 / 10))\<rparr>"

definition stub_scaler :: scaler where
  "stub_scaler = \<lparr>transform = (\<lambda>v. v)\<rparr>"

text \<open>
  Error maps with one L-shaped suspicious component, and their labellings:
  \<open>ell11\<close> is 11 pixels wide and 11 tall (21 of the 144 pixels of a 12 by 12 image,
  14.6 percent); \<open>ell12\<close> is 12 wide and 12 tall (23 of the 168 pixels of an image of
  12 rows and 14 columns, 13.7 percent). Both stay under 15 percent, so the mask is not
  opened.
\<close>

definition ell11_map :: "pixel grid" where
  "ell11_map = [replicate 11 200 @ [0]] @ replicate 10 (200 # replicate 11 0) @ [replicate 12 0]"

definition ell11_labels :: "nat grid" where
  "ell11_labels = [replicate 11 1 @ [0]] @ replicate 10 (1 # replicate 11 0) @ [replicate 12 0]"

definition ell12_map :: "pixel grid" where
  "ell12_map = [replicate 12 200 @ [0, 0]] @ replicate 11 (200 # replicate 13 0)"

definition ell12_labels :: "nat grid" where
  "ell12_labels = [replicate 12 1 @ [0, 0]] @ replicate 11 (1 # replicate 13 0)"

text \<open>
  External operations for the examples: every upload decodes, the error map is the
  given one, the labelling is \<open>label_single\<close>. The opening is a placeholder: the
  examples keep the suspicious share at or under 15 percent, where it is not called.
\<close>

definition stub_externals :: "pixel grid \<Rightarrow> unit externals" where
  "stub_externals ela_array =
     \<lparr>image_open = (\<lambda>contents. Some ()), perform_ela = (\<lambda>img quality enhancement. ela_array),
      ndimage_label = label_single, binary_opening = (\<lambda>m. m)\<rparr>"

text \<open>
  The same, with a labelling that reports 1001 components: it makes
  \<open>find_suspicious_regions\<close> take the bounding-slice branch on a small error map.
\<close>

definition stub_externals_many :: "pixel grid \<Rightarrow> unit externals" where
  "stub_externals_many ela_array =
     (stub_externals ela_array)\<lparr>ndimage_label := (\<lambda>m. (fst (label_single m), 1001))\<rparr>"

definition stub_config :: ElaConfig where
  "stub_config =
     \<lparr>ela_quality = 90, threshold_multiplier = 0, min_region_size = 20,
      enhancement_strength = 1, feature_names = []\<rparr>"

text \<open>Eleven detected boxes, in detection order, the last two of one area.\<close>

definition eleven_boxes :: "box list" where
  "eleven_boxes =
     [(0, 0, 11, 11), (20, 0, 12, 11), (40, 0, 13, 11), (60, 0, 14, 11), (80, 0, 15, 11),
      (100, 0, 16, 11), (120, 0, 17, 11), (140, 0, 18, 11), (160, 0, 19, 11),
      (180, 0, 20, 11), (200, 0, 20, 11)]"

definition config_without_names :: config_dict where
  "config_without_names =
     \<lparr>cfg_ela_quality = Some 90, cfg_threshold_multiplier = Some 2,
      cfg_min_region_size = Some 50, cfg_enhancement_strength = Some 1,
      cfg_feature_names = None\<rparr>"

section \<open>Contracts used in the statements\<close>

text \<open>The three result lists have one length (they are appended to in step).\<close>

definition aligned :: "regions \<Rightarrow> bool" where
  "aligned r =
     (case r of (boxes, region_sizes, region_intensities) \<Rightarrow>
        length boxes = length region_sizes \<and> length region_sizes = length region_intensities)"


section \<open>Quantities of a component, for the statements\<close>

text \<open>
  The number of pixels that carry label \<open>i\<close>; the smallest and largest entry of a list
  of coordinates; and, for each strategy, the box and the mean intensity it reports for
  label \<open>i\<close>: the bounding-slice strategy measures \<open>stop - start\<close>, that is
  \<open>max + 1 - min\<close>, the coordinate strategy \<open>max - min\<close>.
\<close>

definition component_size :: "nat grid \<Rightarrow> nat \<Rightarrow> int" where
  "component_size labeled_array i = int (length (filter (\<lambda>l. l = i) (concat labeled_array)))"

definition lo_hi :: "nat list \<Rightarrow> nat \<times> nat" where
  "lo_hi xs = (case xs of [] \<Rightarrow> (0, 0) | x # r \<Rightarrow> (fold min r x, fold max r x))"

definition coords_box :: "nat grid \<Rightarrow> nat \<Rightarrow> box" where
  "coords_box labeled_array i =
     (case (lo_hi (map fst (argwhere labeled_array i)),
            lo_hi (map snd (argwhere labeled_array i))) of
        ((y_min, y_max), (x_min, x_max)) \<Rightarrow>
          (int x_min, int y_min, int x_max - int x_min, int y_max - int y_min))"

definition slice_box :: "nat grid \<Rightarrow> nat \<Rightarrow> box" where
  "slice_box labeled_array i =
     (case (lo_hi (map fst (argwhere labeled_array i)),
            lo_hi (map snd (argwhere labeled_array i))) of
        ((y_min, y_max), (x_min, x_max)) \<Rightarrow>
          (int x_min, int y_min, int x_max + 1 - int x_min, int y_max + 1 - int y_min))"

definition coords_intensity :: "pixel grid \<Rightarrow> nat grid \<Rightarrow> nat \<Rightarrow> real" where
  "coords_intensity ela_array labeled_array i =
     np_mean (masked_values ela_array (map (map (\<lambda>l. l = i)) labeled_array))"

definition slice_intensity :: "pixel grid \<Rightarrow> nat grid \<Rightarrow> nat \<Rightarrow> real" where
  "slice_intensity ela_array labeled_array i =
     (case bounding_slice (argwhere labeled_array i) of
        None \<Rightarrow> 0
      | Some slice_obj \<Rightarrow>
          np_mean (masked_values (crop slice_obj ela_array)
                     (map (map (\<lambda>l. l = i)) (crop slice_obj labeled_array))))"

text \<open>
  The filter of the specification: a component survives when its pixel count is not
  below the minimum area and the width and height of its box exceed 10.
\<close>

definition survives :: "int \<Rightarrow> nat grid \<Rightarrow> (nat grid \<Rightarrow> nat \<Rightarrow> box) \<Rightarrow> nat \<Rightarrow> bool" where
  "survives min_area labeled_array box_of i =
     (min_area \<le> component_size labeled_array i
      \<and> (case box_of labeled_array i of (x, y, width, height) \<Rightarrow> 10 < width \<and> 10 < height))"

section \<open>Properties of the split\<close>

lemma int_base16_hex:
  assumes "s \<noteq> []" and "list_all is_hex s"
  shows "int_base16 s = Inr (hex_value s)"
  using assms by (simp add: int_base16_def)

text \<open>
  Claim C10. For a checksum whose first 8 characters are hexadecimal digits, the split is
  a total function of those digits alone: with \<open>r\<close> the value of the first 8 digits
  divided by \<open>0xFFFFFFFF\<close>, the result is exactly one of "train", "val", "test"; it is
  "train" iff \<open>r < 0.8\<close>, "val" iff \<open>0.8 \<le> r < 0.9\<close>, and "test" otherwise; and every
  checksum with the same first 8 digits gets the same split.
\<close>

theorem assign_split_total_deterministic:
  assumes len: "8 \<le> length sha" and hex: "list_all is_hex (take 8 sha)"
  shows "assign_split_from_checksum sha \<in> {Inr ''train'', Inr ''val'', Inr ''test''}
    \<and> (assign_split_from_checksum sha = Inr ''train'' \<longleftrightarrow>
         real_of_int (hex_value (take 8 sha)) / 4294967295 < 8 / 10)
    \<and> (assign_split_from_checksum sha = Inr ''val'' \<longleftrightarrow>
         8 / 10 \<le> real_of_int (hex_value (take 8 sha)) / 4294967295
         \<and> real_of_int (hex_value (take 8 sha)) / 4294967295 < 9 / 10)
    \<and> (assign_split_from_checksum sha = Inr ''test'' \<longleftrightarrow>
         9 / 10 \<le> real_of_int (hex_value (take 8 sha)) / 4294967295)
    \<and> (\<forall>sha'. take 8 sha' = take 8 sha \<longrightarrow>
           assign_split_from_checksum sha' = assign_split_from_checksum sha)"
proof -
  from len have ne: "take 8 sha \<noteq> []" by auto
  have p: "int_base16 (take 8 sha) = Inr (hex_value (take 8 sha))"
    by (rule int_base16_hex [OF ne hex])
  have same: "\<forall>sha'. take 8 sha' = take 8 sha \<longrightarrow>
           assign_split_from_checksum sha' = assign_split_from_checksum sha"
    by (simp add: assign_split_from_checksum_def)
  show ?thesis
    using same
    by (auto simp add: assign_split_from_checksum_def p SPLIT_THRESHOLDS_def Let_def)
qed

theorem assign_split_total_deterministic_witness:
  "8 \<le> length ''e3b0c44298fc1c14'' \<and> list_all is_hex (take 8 ''e3b0c44298fc1c14'')
   \<and> assign_split_from_checksum ''e3b0c44298fc1c14'' = Inr ''val''
   \<and> 8 / 10 \<le> real_of_int (hex_value (take 8 ''e3b0c44298fc1c14'')) / 4294967295
   \<and> real_of_int (hex_value (take 8 ''e3b0c44298fc1c14'')) / 4294967295 < 9 / 10"
proof -
  have l: "8 \<le> length ''e3b0c44298fc1c14''" by simp
  have h: "list_all is_hex (take 8 ''e3b0c44298fc1c14'')"
    by (simp add: is_hex_def hex_digit_def)
  have v: "hex_value (take 8 ''e3b0c44298fc1c14'') = 3820012610"
    by (simp add: hex_value_def hex_digit_def)
  have a: "assign_split_from_checksum ''e3b0c44298fc1c14'' = Inr ''val''"
    by (simp add: assign_split_from_checksum_def int_base16_def is_hex_def hex_digit_def
        hex_value_def SPLIT_THRESHOLDS_def)
  from assign_split_total_deterministic [OF l h] a l h show ?thesis
    by simp
qed

section \<open>Startup\<close>

lemma load_artifacts_RuntimeError:
  "load_artifacts fs = Inl RuntimeError \<longleftrightarrow>
     MODEL_PATH fs = None \<or> SCALER_PATH fs = None \<or> CONFIG_PATH fs = None"
  by (simp add: load_artifacts_def subscript_def split: option.split)

lemma load_artifacts_present:
  assumes "MODEL_PATH fs = Some m" "SCALER_PATH fs = Some sc" "CONFIG_PATH fs = Some config"
  shows "(if cfg_ela_quality config = None then
           load_artifacts fs = Inl (KeyError ''ela_quality'')
         else if cfg_threshold_multiplier config = None then
           load_artifacts fs = Inl (KeyError ''threshold_multiplier'')
         else if cfg_min_region_size config = None then
           load_artifacts fs = Inl (KeyError ''min_region_size'')
         else if cfg_enhancement_strength config = None then
           load_artifacts fs = Inl (KeyError ''enhancement_strength'')
         else
           load_artifacts fs =
             Inr (m, sc,
                  \<lparr>ela_quality = the (cfg_ela_quality config),
                   threshold_multiplier = the (cfg_threshold_multiplier config),
                   min_region_size = the (cfg_min_region_size config),
                   enhancement_strength = the (cfg_enhancement_strength config),
                   feature_names =
                     (case cfg_feature_names config of None \<Rightarrow> [] | Some ns \<Rightarrow> ns)\<rparr>))"
  using assms by (auto simp add: load_artifacts_def subscript_def get_default_def)

text \<open>
  Claim C4, as the code has it. Loading fails with \<open>RuntimeError\<close> exactly when one of
  the three files is absent; with the three files present it fails with \<open>KeyError\<close> on
  the first absent key among \<open>ela_quality\<close>, \<open>threshold_multiplier\<close>,
  \<open>min_region_size\<close> and \<open>enhancement_strength\<close>; otherwise it succeeds, and an absent
  list of feature names is replaced by the empty list.
\<close>

theorem load_artifacts_startup:
  "(load_artifacts fs = Inl RuntimeError \<longleftrightarrow>
      MODEL_PATH fs = None \<or> SCALER_PATH fs = None \<or> CONFIG_PATH fs = None)
   \<and> (\<forall>m sc config.
        MODEL_PATH fs = Some m \<and> SCALER_PATH fs = Some sc \<and> CONFIG_PATH fs = Some config \<longrightarrow>
        (if cfg_ela_quality config = None then
           load_artifacts fs = Inl (KeyError ''ela_quality'')
         else if cfg_threshold_multiplier config = None then
           load_artifacts fs = Inl (KeyError ''threshold_multiplier'')
         else if cfg_min_region_size config = None then
           load_artifacts fs = Inl (KeyError ''min_region_size'')
         else if cfg_enhancement_strength config = None then
           load_artifacts fs = Inl (KeyError ''enhancement_strength'')
         else
           load_artifacts fs =
             Inr (m, sc,
                  \<lparr>ela_quality = the (cfg_ela_quality config),
                   threshold_multiplier = the (cfg_threshold_multiplier config),
                   min_region_size = the (cfg_min_region_size config),
                   enhancement_strength = the (cfg_enhancement_strength config),
                   feature_names =
                     (case cfg_feature_names config of None \<Rightarrow> [] | Some ns \<Rightarrow> ns)\<rparr>)))"
proof -
  have "\<forall>m sc config.
        MODEL_PATH fs = Some m \<and> SCALER_PATH fs = Some sc \<and> CONFIG_PATH fs = Some config \<longrightarrow>
        (if cfg_ela_quality config = None then
           load_artifacts fs = Inl (KeyError ''ela_quality'')
         else if cfg_threshold_multiplier config = None then
           load_artifacts fs = Inl (KeyError ''threshold_multiplier'')
         else if cfg_min_region_size config = None then
           load_artifacts fs = Inl (KeyError ''min_region_size'')
         else if cfg_enhancement_strength config = None then
           load_artifacts fs = Inl (KeyError ''enhancement_strength'')
         else
           load_artifacts fs =
             Inr (m, sc,
                  \<lparr>ela_quality = the (cfg_ela_quality config),
                   threshold_multiplier = the (cfg_threshold_multiplier config),
                   min_region_size = the (cfg_min_region_size config),
                   enhancement_strength = the (cfg_enhancement_strength config),
                   feature_names =
                     (case cfg_feature_names config of None \<Rightarrow> [] | Some ns \<Rightarrow> ns)\<rparr>))"
    using load_artifacts_present by blast
  then show ?thesis
    by (rule conjI [OF load_artifacts_RuntimeError])
qed

theorem load_artifacts_startup_witness:
  "load_artifacts \<lparr>MODEL_PATH = Some stub_model, SCALER_PATH = None,
                    CONFIG_PATH = Some config_without_names\<rparr> = Inl RuntimeError
   \<and> load_artifacts \<lparr>MODEL_PATH = Some stub_model, SCALER_PATH = Some stub_scaler,
        CONFIG_PATH = Some (config_without_names\<lparr>cfg_min_region_size := None\<rparr>)\<rparr>
       = Inl (KeyError ''min_region_size'')
   \<and> load_artifacts \<lparr>MODEL_PATH = Some stub_model, SCALER_PATH = Some stub_scaler,
        CONFIG_PATH = Some (config_without_names\<lparr>cfg_feature_names := Some [''mean_error'']\<rparr>)\<rparr>
       = Inr (stub_model, stub_scaler,
          \<lparr>ela_quality = 90, threshold_multiplier = 2, min_region_size = 50,
           enhancement_strength = 1, feature_names = [''mean_error'']\<rparr>)"
  using
    load_artifacts_startup [of "\<lparr>MODEL_PATH = Some stub_model, SCALER_PATH = None,
                    CONFIG_PATH = Some config_without_names\<rparr>"]
    load_artifacts_startup [of "\<lparr>MODEL_PATH = Some stub_model, SCALER_PATH = Some stub_scaler,
        CONFIG_PATH = Some (config_without_names\<lparr>cfg_min_region_size := None\<rparr>)\<rparr>"]
    load_artifacts_startup [of "\<lparr>MODEL_PATH = Some stub_model, SCALER_PATH = Some stub_scaler,
        CONFIG_PATH = Some (config_without_names\<lparr>cfg_feature_names := Some [''mean_error'']\<rparr>)\<rparr>"]
  by (simp add: config_without_names_def)

text \<open>
  Against claim C4 as stated: with the classifier, the scaler and the configuration file
  present, and the list of feature names absent from the configuration, loading
  succeeds.
\<close>

theorem load_artifacts_without_feature_names:
  "load_artifacts \<lparr>MODEL_PATH = Some stub_model, SCALER_PATH = Some stub_scaler,
                    CONFIG_PATH = Some config_without_names\<rparr>
   = Inr (stub_model, stub_scaler,
          \<lparr>ela_quality = 90, threshold_multiplier = 2, min_region_size = 50,
           enhancement_strength = 1, feature_names = []\<rparr>)"
  by (simp add: load_artifacts_def config_without_names_def subscript_def get_default_def)

section \<open>Top-N selection\<close>

lemma zip_map_self: "zip xs (map f xs) = map (\<lambda>b. (b, f b)) xs"
  by (induction xs) auto

lemma insort_key_pairs:
  "insort_key (\<lambda>p. - snd p) (x, g x) (map (\<lambda>b. (b, (g b :: int))) ys)
   = map (\<lambda>b. (b, g b)) (insort_key (\<lambda>b. - g b) x ys)"
  by (induction ys) auto

lemma sort_key_pairs:
  "sort_key (\<lambda>p. - snd p) (map (\<lambda>b. (b, (g b :: int))) xs)
   = map (\<lambda>b. (b, g b)) (sort_key (\<lambda>b. - g b) xs)"
  by (induction xs) (auto simp: insort_key_pairs)

lemma top_boxes_eq:
  "top_boxes boxes = take TOP_N_BOXES (sort_key (\<lambda>b. - box_area b) boxes)"
proof -
  have "boxes_sorted boxes = map (\<lambda>b. (b, box_area b)) (sort_key (\<lambda>b. - box_area b) boxes)"
    by (simp add: boxes_sorted_def zip_map_self sort_key_pairs)
  then show ?thesis
    by (simp add: top_boxes_def take_map comp_def)
qed

lemma sorted_desc:
  "sorted (map (\<lambda>b. - (g b :: int)) xs) \<Longrightarrow> sorted_wrt (\<lambda>a b. g b \<le> g a) xs"
  by (induction xs) auto

lemma sorted_wrt_take_drop:
  assumes "sorted_wrt P xs" and "a \<in> set (take n xs)" and "b \<in> set (drop n xs)"
  shows "P a b"
proof -
  from assms(1) have "sorted_wrt P (take n xs @ drop n xs)" by simp
  with assms(2,3) show ?thesis unfolding sorted_wrt_append by blast
qed

text \<open>
  Claim C9, as the code has it. There is a ranking of the detected boxes (the same
  boxes, reordered) that is descending in area and keeps boxes of equal area in
  detection order; the selection is its first 10 entries, or all of them when there are
  fewer. So at most 10 boxes are selected, each one a detected box (with multiplicity),
  and no box left out has a larger area than a selected one.
\<close>

theorem top_boxes_selection:
  "\<exists>ranked.
      mset ranked = mset boxes
    \<and> sorted_wrt (\<lambda>a b. box_area b \<le> box_area a) ranked
    \<and> (\<forall>k. filter (\<lambda>b. box_area b = k) ranked = filter (\<lambda>b. box_area b = k) boxes)
    \<and> top_boxes boxes = take TOP_N_BOXES ranked
    \<and> length (top_boxes boxes) = min 10 (length boxes)
    \<and> mset (top_boxes boxes) \<subseteq># mset boxes
    \<and> (\<forall>b \<in> set (drop TOP_N_BOXES ranked). \<forall>t \<in> set (top_boxes boxes).
          box_area b \<le> box_area t)"
proof -
  let ?r = "sort_key (\<lambda>b. - box_area b) boxes"
  have 1: "mset ?r = mset boxes" by simp
  have 2: "sorted_wrt (\<lambda>a b. box_area b \<le> box_area a) ?r"
    by (rule sorted_desc) (rule sorted_sort_key)
  have 3: "filter (\<lambda>b. box_area b = k) ?r = filter (\<lambda>b. box_area b = k) boxes" for k
    using sort_key_stable [of "\<lambda>b. - box_area b" "- k" boxes] by simp
  have 4: "top_boxes boxes = take TOP_N_BOXES ?r" by (rule top_boxes_eq)
  have 5: "length (top_boxes boxes) = min 10 (length boxes)"
    by (simp add: 4 TOP_N_BOXES_def min.commute)
  have "mset (take TOP_N_BOXES ?r) \<subseteq># mset ?r"
    by (metis append_take_drop_id mset_append mset_subset_eq_add_left)
  then have 6: "mset (top_boxes boxes) \<subseteq># mset boxes" by (simp add: 4)
  have 7: "\<forall>b \<in> set (drop TOP_N_BOXES ?r). \<forall>t \<in> set (top_boxes boxes).
             box_area b \<le> box_area t"
    unfolding 4 using sorted_wrt_take_drop [OF 2] by blast
  from 1 2 3 4 5 6 7 show ?thesis by blast
qed

theorem top_boxes_selection_witness:
  "top_boxes eleven_boxes =
     [(180, 0, 20, 11), (200, 0, 20, 11), (160, 0, 19, 11), (140, 0, 18, 11),
      (120, 0, 17, 11), (100, 0, 16, 11), (80, 0, 15, 11), (60, 0, 14, 11),
      (40, 0, 13, 11), (20, 0, 12, 11)]
   \<and> length (top_boxes eleven_boxes) = min 10 (length eleven_boxes)
   \<and> mset (top_boxes eleven_boxes) \<subseteq># mset eleven_boxes
   \<and> (\<exists>ranked. mset ranked = mset eleven_boxes
        \<and> top_boxes eleven_boxes = take TOP_N_BOXES ranked)"
proof -
  have "top_boxes eleven_boxes =
     [(180, 0, 20, 11), (200, 0, 20, 11), (160, 0, 19, 11), (140, 0, 18, 11),
      (120, 0, 17, 11), (100, 0, 16, 11), (80, 0, 15, 11), (60, 0, 14, 11),
      (40, 0, 13, 11), (20, 0, 12, 11)]"
    by (simp add: eleven_boxes_def top_boxes_def boxes_sorted_def box_area_def TOP_N_BOXES_def)
  moreover from top_boxes_selection [of eleven_boxes]
  have "length (top_boxes eleven_boxes) = min 10 (length eleven_boxes)
   \<and> mset (top_boxes eleven_boxes) \<subseteq># mset eleven_boxes
   \<and> (\<exists>ranked. mset ranked = mset eleven_boxes
        \<and> top_boxes eleven_boxes = take TOP_N_BOXES ranked)"
    by blast
  ultimately show ?thesis by blast
qed

text \<open>
  Against claim C9 as stated: the selection is ordered by area, so it is not a
  subsequence of the boxes in detection order when a larger box was detected after a
  smaller one.
\<close>

theorem top_boxes_not_subseq:
  "\<not> subseq (top_boxes [(0, 0, 11, 11), (20, 0, 12, 12)]) [(0, 0, 11, 11), (20, 0, 12, 12)]"
  by (simp add: top_boxes_def boxes_sorted_def box_area_def TOP_N_BOXES_def)

section \<open>Region extraction: general facts\<close>

lemma np_mean_const:
  assumes "xs \<noteq> []" and "\<forall>x \<in> set xs. x = c"
  shows "np_mean xs = c"
proof -
  have "sum_list xs = real (length xs) * c"
    using assms(2) by (induction xs) (auto simp: algebra_simps)
  with assms(1) show ?thesis by (simp add: np_mean_def)
qed

lemma np_std_const:
  assumes "xs \<noteq> []" and "\<forall>x \<in> set xs. x = c"
  shows "np_std xs = 0"
proof -
  have m: "np_mean xs = c" by (rule np_mean_const [OF assms])
  have "np_mean (map (\<lambda>x. (x - c)\<^sup>2) xs) = 0"
    by (rule np_mean_const) (use assms in auto)
  then show ?thesis by (simp add: np_std_def m)
qed

lemma count_true_none:
  assumes "\<forall>b \<in> set (concat m). \<not> b"
  shows "count_true m = 0"
  using assms by (simp add: count_true_def filter_empty_conv)

lemma concat_suspicious_mask:
  "concat (suspicious_mask a t) = map (\<lambda>v. t < real (unat v)) (concat a)"
  by (simp add: suspicious_mask_def map_concat)

lemma find_suspicious_regions_clean:
  assumes "count_true (suspicious_mask ela_array threshold) = 0"
  shows "find_suspicious_regions ext ela_array threshold min_area = Inr ([], [], [])"
  using assms by (simp add: find_suspicious_regions_def)

lemma find_suspicious_regions_no_features:
  assumes "snd (ndimage_label ext
             (suppress_noise ext ela_array (suspicious_mask ela_array threshold))) = 0"
  shows "find_suspicious_regions ext ela_array threshold min_area = Inr ([], [], [])"
proof (cases "ndimage_label ext
             (suppress_noise ext ela_array (suspicious_mask ela_array threshold))")
  case (Pair labeled_array num_features)
  with assms show ?thesis by (simp add: find_suspicious_regions_def Let_def)
qed

lemma slice_step_aligned:
  assumes "aligned acc"
  shows "aligned (slice_step ela_array labeled_array min_area item acc)"
  using assms
  by (auto simp: slice_step_def aligned_def Let_def split: prod.splits option.splits)

lemma slice_fold_aligned:
  assumes "aligned acc"
  shows "aligned (fold (slice_step ela_array labeled_array min_area) items acc)"
  using assms by (induction items arbitrary: acc) (auto simp: slice_step_aligned)

lemma coords_step_aligned:
  assumes "aligned acc" and "coords_step ela_array labeled_array min_area i acc = Inr acc'"
  shows "aligned acc'"
  using assms
  by (auto simp: coords_step_def aligned_def Let_def split: prod.splits sum.splits if_splits)

lemma coords_loop_aligned:
  assumes "aligned acc" and "coords_loop ela_array labeled_array min_area is acc = Inr r"
  shows "aligned r"
  using assms
proof (induction "is" arbitrary: acc)
  case Nil
  then show ?case by simp
next
  case (Cons i rest)
  then show ?case
    by (auto split: sum.splits dest: coords_step_aligned)
qed

lemma find_suspicious_regions_aligned:
  assumes "find_suspicious_regions ext ela_array threshold min_area = Inr r"
  shows "aligned r"
proof -
  have e: "aligned ([], [], [])" by (simp add: aligned_def)
  obtain labeled_array num_features where
    l: "ndimage_label ext (suppress_noise ext ela_array (suspicious_mask ela_array threshold))
        = (labeled_array, num_features)"
    by (cases "ndimage_label ext
      (suppress_noise ext ela_array (suspicious_mask ela_array threshold))")
  show ?thesis
    using assms e slice_fold_aligned [OF e] coords_loop_aligned [OF e]
    by (auto simp: find_suspicious_regions_def Let_def l slice_strategy_def coords_strategy_def
        split: if_splits)
qed


lemma np_max_nonempty: "xs \<noteq> [] \<Longrightarrow> \<exists>v. np_max xs = Inr v"
  by (cases xs) (auto simp: np_max_def)




section \<open>The two strategies on one component\<close>

text \<open>
  The slice that \<open>find_objects\<close> gives for a label stops one past the largest
  coordinate, so its width and height are one more than \<open>max - min\<close>.
\<close>

lemma bounding_slice_extent:
  assumes "coords \<noteq> []"
  shows "\<exists>y_min x_min y_max x_max.
      np_min (map fst coords) = Inr y_min \<and> np_min (map snd coords) = Inr x_min
    \<and> np_max (map fst coords) = Inr y_max \<and> np_max (map snd coords) = Inr x_max
    \<and> bounding_slice coords = Some ((y_min, y_max + 1), (x_min, x_max + 1))"
proof (cases coords)
  case Nil
  with assms show ?thesis by simp
next
  case (Cons c r)
  then show ?thesis
    by (cases c) (simp add: np_min_def np_max_def bounding_slice_def)
qed

text \<open>
  Evidence for claim C1. On the labelled array \<open>ell11_labels\<close> (one component, 11
  pixels wide and 11 tall, 21 pixels) with minimum area 20, the bounding-slice strategy
  returns the box \<open>(0, 0, 11, 11)\<close> with 21 pixels and the coordinate strategy returns
  nothing: the first measures \<open>stop - start\<close>, the second \<open>max - min\<close>.
\<close>

theorem strategies_disagree:
  "fst (slice_strategy ell11_map ell11_labels 20) = [(0, 0, 11, 11)]
   \<and> fst (snd (slice_strategy ell11_map ell11_labels 20)) = [21]
   \<and> coords_strategy ell11_map ell11_labels 1 20 = Inr ([], [], [])"
  by code_simp

text \<open>
  Evidence for claim C2. The error map \<open>ell11_map\<close> has one suspicious component 11
  pixels wide and 11 tall; with one component the coordinate strategy runs, computes
  width and height 10, and the region is left out.
\<close>

theorem region_11_wide_dropped:
  "find_suspicious_regions (stub_externals ell11_map) ell11_map 100 20 = Inr ([], [], [])"
  by code_simp

section \<open>The feature vector\<close>

lemma extract_features_ela_Inr:
  assumes "np_max (pixel_values ela_array) = Inr max_error"
    and "find_suspicious_regions ext ela_array
           (np_mean (pixel_values ela_array)
              + threshold_multiplier cfg * np_std (pixel_values ela_array))
           (min_region_size cfg)
         = Inr (boxes, region_sizes, region_intensities)"
  shows "extract_features_ela ext cfg ela_array =
     Inr ([np_mean (pixel_values ela_array), max_error, np_std (pixel_values ela_array),
           np_median (pixel_values ela_array),
           np_mean (pixel_values ela_array)
             + threshold_multiplier cfg * np_std (pixel_values ela_array),
           real (count_true (suspicious_mask ela_array
             (np_mean (pixel_values ela_array)
                + threshold_multiplier cfg * np_std (pixel_values ela_array)))),
           real (count_true (suspicious_mask ela_array
             (np_mean (pixel_values ela_array)
                + threshold_multiplier cfg * np_std (pixel_values ela_array))))
             / real (array_size ela_array) * 100]
          @ region_aggregates boxes region_sizes region_intensities
          @ map (\<lambda>c. real c / real (array_size ela_array)) (np_histogram (pixel_values ela_array))
          @ map (np_percentile (pixel_values ela_array)) [25, 50, 75, 90, 95]
          @ [abs_sum (diff_axis0 ela_array), abs_sum (diff_axis1 ela_array)],
          ela_array,
          np_mean (pixel_values ela_array)
            + threshold_multiplier cfg * np_std (pixel_values ela_array),
          boxes,
          [(''mean_error'', np_mean (pixel_values ela_array)), (''max_error'', max_error),
           (''std_error'', np_std (pixel_values ela_array)),
           (''median_error'', np_median (pixel_values ela_array)),
           (''threshold'', np_mean (pixel_values ela_array)
              + threshold_multiplier cfg * np_std (pixel_values ela_array)),
           (''suspicious_pixels'', real (count_true (suspicious_mask ela_array
             (np_mean (pixel_values ela_array)
                + threshold_multiplier cfg * np_std (pixel_values ela_array))))),
           (''suspicious_percentage'', real (count_true (suspicious_mask ela_array
             (np_mean (pixel_values ela_array)
                + threshold_multiplier cfg * np_std (pixel_values ela_array))))
             / real (array_size ela_array) * 100),
           (''num_regions'', real (length boxes))])"
  using assms by (simp add: extract_features_ela_def Let_def)





lemma length_filter_enumerate:
  "length (filter (\<lambda>(x, l). l = i) (enumerate k row)) = length (filter (\<lambda>l. l = i) row)"
  by (induction row arbitrary: k) auto

lemma length_argwhere_rows:
  "length (concat (map (\<lambda>(y, row). map (\<lambda>(x, l). (y, x))
              (filter (\<lambda>(x, l). l = i) (enumerate 0 row))) (enumerate n labeled)))
   = length (filter (\<lambda>l. l = i) (concat labeled))"
  by (induction labeled arbitrary: n) (auto simp: length_filter_enumerate)

lemma length_argwhere:
  "length (argwhere labeled i) = length (filter (\<lambda>l. l = i) (concat labeled))"
  unfolding argwhere_def by (rule length_argwhere_rows)




section \<open>Uniform error maps\<close>

lemma pixel_values_const:
  assumes "\<forall>v \<in> set (concat ela_array). v = c"
  shows "\<forall>x \<in> set (pixel_values ela_array). x = real (unat c)"
  using assms by (auto simp: pixel_values_def)

lemma suspicious_mask_const:
  assumes "\<forall>v \<in> set (concat ela_array). v = c"
  shows "count_true (suspicious_mask ela_array (real (unat c))) = 0"
  using assms by (intro count_true_none) (auto simp: concat_suspicious_mask)

lemma extract_features_ela_uniform:
  assumes ne: "concat ela_array \<noteq> []" and u: "\<forall>v \<in> set (concat ela_array). v = c"
  shows "\<exists>features feature_dict.
      extract_features_ela ext cfg ela_array
        = Inr (features, ela_array, real (unat c), [], feature_dict)
    \<and> np_mean (pixel_values ela_array) = real (unat c)
    \<and> np_std (pixel_values ela_array) = 0
    \<and> features ! 0 = real (unat c)
    \<and> features ! 4 = real (unat c)
    \<and> features ! 5 = 0
    \<and> features ! 6 = 0
    \<and> count_true (suspicious_mask ela_array (real (unat c))) = 0"
proof -
  let ?vals = "pixel_values ela_array"
  from ne have v: "?vals \<noteq> []" by (simp add: pixel_values_def)
  note pc = pixel_values_const [OF u]
  have m: "np_mean ?vals = real (unat c)" by (rule np_mean_const [OF v pc])
  have s: "np_std ?vals = 0" by (rule np_std_const [OF v pc])
  have t: "np_mean ?vals + threshold_multiplier cfg * np_std ?vals = real (unat c)"
    by (simp add: m s)
  have z: "count_true (suspicious_mask ela_array (real (unat c))) = 0"
    by (rule suspicious_mask_const [OF u])
  obtain max_error where mx: "np_max ?vals = Inr max_error"
    using np_max_nonempty [OF v] by blast
  have f: "find_suspicious_regions ext ela_array
             (np_mean ?vals + threshold_multiplier cfg * np_std ?vals) (min_region_size cfg)
           = Inr ([], [], [])"
    unfolding t by (rule find_suspicious_regions_clean [OF z])
  from extract_features_ela_Inr [OF mx f]
  obtain rest feature_dict where
    e: "extract_features_ela ext cfg ela_array =
          Inr ([np_mean ?vals, max_error, np_std ?vals, np_median ?vals,
                np_mean ?vals + threshold_multiplier cfg * np_std ?vals,
                real (count_true (suspicious_mask ela_array
                  (np_mean ?vals + threshold_multiplier cfg * np_std ?vals))),
                real (count_true (suspicious_mask ela_array
                  (np_mean ?vals + threshold_multiplier cfg * np_std ?vals)))
                  / real (array_size ela_array) * 100] @ rest,
               ela_array, np_mean ?vals + threshold_multiplier cfg * np_std ?vals, [],
               feature_dict)"
    by blast
  let ?F = "[real (unat c), max_error, 0, np_median ?vals, real (unat c), 0, 0] @ rest"
  have e': "extract_features_ela ext cfg ela_array
              = Inr (?F, ela_array, real (unat c), [], feature_dict)"
    using e z by (simp add: t m s)
  have "?F ! 0 = real (unat c)" "?F ! 4 = real (unat c)" "?F ! 5 = 0" "?F ! 6 = 0"
    by simp_all
  with e' m s z show ?thesis by blast
qed


text \<open>
  Claim C5. For every non-empty error map whose pixels all equal \<open>c\<close>, the mean is
  \<open>c\<close>, the standard deviation is 0, the threshold that \<open>extract_features\<close> returns
  (and puts at position 4 of the feature vector) equals the mean, and the number of
  pixels strictly above the threshold is 0: no partial count.
\<close>

theorem uniform_map_threshold:
  assumes "concat ela_array \<noteq> []" and "\<forall>v \<in> set (concat ela_array). v = c"
  shows "\<exists>features feature_dict.
      extract_features_ela ext cfg ela_array
        = Inr (features, ela_array, real (unat c), [], feature_dict)
    \<and> np_mean (pixel_values ela_array) = real (unat c)
    \<and> np_std (pixel_values ela_array) = 0
    \<and> features ! 0 = real (unat c)
    \<and> features ! 4 = real (unat c)
    \<and> features ! 5 = 0
    \<and> features ! 6 = 0
    \<and> count_true (suspicious_mask ela_array (real (unat c))) = 0"
  using assms by (rule extract_features_ela_uniform)

theorem uniform_map_threshold_witness:
  "concat [[7, 7], [7, 7 :: pixel]] \<noteq> []
   \<and> set (concat [[7, 7], [7, 7 :: pixel]]) = {7}
   \<and> (\<exists>features feature_dict.
        extract_features_ela (stub_externals [[7, 7], [7, 7]]) stub_config [[7, 7], [7, 7]]
          = Inr (features, [[7, 7], [7, 7]], 7, [], feature_dict)
        \<and> features ! 0 = 7 \<and> features ! 4 = 7 \<and> features ! 5 = 0)
   \<and> count_true (suspicious_mask [[7, 7], [7, 7]] 7) = 0"
proof -
  have n: "concat [[7, 7], [7, 7 :: pixel]] \<noteq> []" by simp
  have u: "\<forall>v \<in> set (concat [[7, 7], [7, 7 :: pixel]]). v = 7" by simp
  from uniform_map_threshold [OF n u, of "stub_externals [[7, 7], [7, 7]]" stub_config]
  have "(\<exists>features feature_dict.
        extract_features_ela (stub_externals [[7, 7], [7, 7]]) stub_config [[7, 7], [7, 7]]
          = Inr (features, [[7, 7], [7, 7]], 7, [], feature_dict)
        \<and> features ! 0 = 7 \<and> features ! 4 = 7 \<and> features ! 5 = 0)
      \<and> count_true (suspicious_mask [[7, 7], [7, 7]] 7) = 0"
    by simp blast
  moreover have "set (concat [[7, 7], [7, 7 :: pixel]]) = {7}" by simp
  ultimately show ?thesis using n by blast
qed

section \<open>Degenerate inputs\<close>

lemma fold_max_ge: "v \<in> set (x # r) \<Longrightarrow> v \<le> fold max r (x :: 'a :: linorder)"
  using Max_ge [of "set (x # r)" v] by (simp only: Max.set_eq_fold [symmetric] List.finite_set)

lemma fold_min_le: "v \<in> set (x # r) \<Longrightarrow> fold min r (x :: 'a :: linorder) \<le> v"
  using Min_le [of "set (x # r)" v] by (simp only: Min.set_eq_fold [symmetric] List.finite_set)

lemma np_ptp_zero:
  assumes "np_ptp a = Inr 0"
  shows "\<exists>mn. np_min (concat a) = Inr mn \<and> (\<forall>v \<in> set (concat a). v = mn)"
proof (cases "concat a")
  case Nil
  with assms show ?thesis by (simp add: np_ptp_def np_max_def np_min_def)
next
  case (Cons x r)
  with assms have "fold max r x - fold min r x = 0"
    by (simp add: np_ptp_def np_max_def np_min_def)
  then have eq: "fold max r x = fold min r x" by simp
  have "v = fold min r x" if "v \<in> set (x # r)" for v
    using fold_max_ge [OF that] fold_min_le [OF that] eq by simp
  with Cons show ?thesis by (simp add: np_min_def)
qed

lemma heatmap_divisor_nonzero: "heatmap_divisor p \<noteq> 0"
proof (cases "p = 0")
  case True
  then show ?thesis by (simp add: heatmap_divisor_def)
next
  case False
  then have "unat p \<noteq> 0" by (simp add: unat_eq_zero)
  then have "real (unat p) \<noteq> 0" by (simp only: of_nat_eq_0_iff) simp
  with False show ?thesis by (simp add: heatmap_divisor_def)
qed

lemma ela_heatmap_zero_range:
  assumes "np_ptp a = Inr 0"
  shows "ela_heatmap_normalized a = Inr (map (map (\<lambda>v. 0)) a)"
proof -
  from np_ptp_zero [OF assms] obtain mn where
    mn: "np_min (concat a) = Inr mn" and all: "\<forall>v \<in> set (concat a). v = mn"
    by blast
  have "map (map (\<lambda>v. real (unat (v - mn)) / heatmap_divisor 0)) a = map (map (\<lambda>v. 0)) a"
    using all by (intro map_cong refl) auto
  with assms mn show ?thesis by (simp add: ela_heatmap_normalized_def)
qed

lemma ela_heatmap_returns:
  assumes "concat a \<noteq> []"
  shows "\<not> isl (ela_heatmap_normalized a)"
  using assms
  by (cases "concat a") (simp_all add: ela_heatmap_normalized_def np_ptp_def np_max_def np_min_def)

lemma region_aggregates_empty: "region_aggregates [] [] [] = [0, 0, 0, 0, 0]"
  by (simp add: region_aggregates_def)

text \<open>
  Claim C6. Degenerate inputs give empty or zero results, not errors.
  (1) With no suspicious pixel, or no labelled component, \<open>find_suspicious_regions\<close>
  returns three empty lists. (2) When it returns an empty list of boxes on a non-empty
  error map, the other two lists are empty too, \<open>extract_features\<close> returns, and the
  five region aggregates are 0. (3) The heat map's divisor is never 0, it is 1 for a
  range of 0, and a map of range 0 is normalised to zeros.
\<close>

theorem degenerate_inputs_do_not_raise:
  "(count_true (suspicious_mask ela_array threshold) = 0
      \<or> snd (ndimage_label ext
               (suppress_noise ext ela_array (suspicious_mask ela_array threshold))) = 0
     \<longrightarrow> find_suspicious_regions ext ela_array threshold min_area = Inr ([], [], []))
   \<and> (concat ela_array \<noteq> []
       \<and> find_suspicious_regions ext ela_array
            (np_mean (pixel_values ela_array)
               + threshold_multiplier cfg * np_std (pixel_values ela_array))
            (min_region_size cfg)
          = Inr ([], region_sizes, region_intensities)
     \<longrightarrow> region_sizes = [] \<and> region_intensities = []
         \<and> (\<exists>features threshold' feature_dict.
               extract_features_ela ext cfg ela_array
                 = Inr (features, ela_array, threshold', [], feature_dict)
             \<and> take 5 (drop 7 features) = [0, 0, 0, 0, 0]))
   \<and> heatmap_divisor 0 = 1
   \<and> heatmap_divisor ptp_val \<noteq> 0
   \<and> (np_ptp ela_array = Inr 0
     \<longrightarrow> ela_heatmap_normalized ela_array = Inr (map (map (\<lambda>v. 0)) ela_array))"
proof -
  have a: "find_suspicious_regions ext ela_array threshold min_area = Inr ([], [], [])"
    if "count_true (suspicious_mask ela_array threshold) = 0
      \<or> snd (ndimage_label ext
               (suppress_noise ext ela_array (suspicious_mask ela_array threshold))) = 0"
    using that find_suspicious_regions_clean find_suspicious_regions_no_features by blast
  have b: "region_sizes = [] \<and> region_intensities = []
         \<and> (\<exists>features threshold' feature_dict.
               extract_features_ela ext cfg ela_array
                 = Inr (features, ela_array, threshold', [], feature_dict)
             \<and> take 5 (drop 7 features) = [0, 0, 0, 0, 0])"
    if ne: "concat ela_array \<noteq> []"
      and f: "find_suspicious_regions ext ela_array
            (np_mean (pixel_values ela_array)
               + threshold_multiplier cfg * np_std (pixel_values ela_array))
            (min_region_size cfg)
          = Inr ([], region_sizes, region_intensities)"
  proof -
    from find_suspicious_regions_aligned [OF f]
    have e: "region_sizes = []" "region_intensities = []" by (auto simp add: aligned_def)
    from ne have "pixel_values ela_array \<noteq> []" by (simp add: pixel_values_def)
    then obtain max_error where m: "np_max (pixel_values ela_array) = Inr max_error"
      using np_max_nonempty by blast
    from extract_features_ela_Inr [OF m f]
    have "\<exists>features threshold' feature_dict.
               extract_features_ela ext cfg ela_array
                 = Inr (features, ela_array, threshold', [], feature_dict)
             \<and> take 5 (drop 7 features) = [0, 0, 0, 0, 0]"
      by (simp add: e region_aggregates_empty)
    with e show ?thesis by blast
  qed
  have c: "heatmap_divisor 0 = 1" by (simp add: heatmap_divisor_def)
  from a b c heatmap_divisor_nonzero ela_heatmap_zero_range show ?thesis by blast
qed

theorem degenerate_inputs_do_not_raise_witness:
  "count_true (suspicious_mask [[7, 7], [7, 7]] 7) = 0
   \<and> find_suspicious_regions (stub_externals [[7, 7], [7, 7]]) [[7, 7], [7, 7]] 7 20
       = Inr ([], [], [])
   \<and> concat [[7, 7], [7, 7 :: pixel]] \<noteq> []
   \<and> find_suspicious_regions (stub_externals [[7, 7], [7, 7]]) [[7, 7], [7, 7]]
         (np_mean (pixel_values [[7, 7], [7, 7]])
            + threshold_multiplier stub_config * np_std (pixel_values [[7, 7], [7, 7]]))
         (min_region_size stub_config)
       = Inr ([], [], [])
   \<and> (\<exists>features threshold' feature_dict.
         extract_features_ela (stub_externals [[7, 7], [7, 7]]) stub_config [[7, 7], [7, 7]]
           = Inr (features, [[7, 7], [7, 7]], threshold', [], feature_dict)
         \<and> take 5 (drop 7 features) = [0, 0, 0, 0, 0])
   \<and> np_ptp [[7, 7], [7, 7]] = Inr 0
   \<and> ela_heatmap_normalized [[7, 7], [7, 7]] = Inr [[0, 0], [0, 0]]"
proof -
  have c: "count_true (suspicious_mask [[7, 7], [7, 7]] 7) = 0"
    by (simp add: count_true_def suspicious_mask_def)
  have n: "concat [[7, 7], [7, 7 :: pixel]] \<noteq> []" by simp
  have t: "np_mean (pixel_values [[7, 7], [7, 7]])
            + threshold_multiplier stub_config * np_std (pixel_values [[7, 7], [7, 7]]) = 7"
    by (simp add: np_mean_def pixel_values_def stub_config_def)
  have p: "np_ptp [[7, 7], [7, 7]] = Inr 0"
    by (simp add: np_ptp_def np_max_def np_min_def)
  note d = degenerate_inputs_do_not_raise
    [of "[[7, 7], [7, 7]]" 7 "stub_externals [[7, 7], [7, 7]]" 20 stub_config "[]" "[]" 0]
  from d c have f: "find_suspicious_regions (stub_externals [[7, 7], [7, 7]]) [[7, 7], [7, 7]] 7 20
       = Inr ([], [], [])"
    by blast
  then have f': "find_suspicious_regions (stub_externals [[7, 7], [7, 7]]) [[7, 7], [7, 7]]
         (np_mean (pixel_values [[7, 7], [7, 7]])
            + threshold_multiplier stub_config * np_std (pixel_values [[7, 7], [7, 7]]))
         (min_region_size stub_config)
       = Inr ([], [], [])"
    by (simp only: t) (simp add: stub_config_def)
  from d n f' have e: "\<exists>features threshold' feature_dict.
         extract_features_ela (stub_externals [[7, 7], [7, 7]]) stub_config [[7, 7], [7, 7]]
           = Inr (features, [[7, 7], [7, 7]], threshold', [], feature_dict)
         \<and> take 5 (drop 7 features) = [0, 0, 0, 0, 0]"
    by blast
  from d p have h: "ela_heatmap_normalized [[7, 7], [7, 7]] = Inr [[0, 0], [0, 0]]"
    by simp
  from c f n f' e p h show ?thesis by blast
qed

section \<open>The analysis panel\<close>

lemma analyze_image_analysis:
  assumes ok: "analyze_image ext (RF_MODEL, SCALER, ELA_CFG) name contents = Inr resp"
  shows "\<exists>features.
     analysis resp =
       \<lparr>label = (if predict RF_MODEL (transform SCALER features) = 1
                  then ''FAKE'' else ''REAL''),
        probabilities = (fst (predict_proba RF_MODEL (transform SCALER features)),
                         snd (predict_proba RF_MODEL (transform SCALER features))),
        fake_probability = snd (predict_proba RF_MODEL (transform SCALER features)),
        is_fake = (predict RF_MODEL (transform SCALER features) = 1)\<rparr>"
proof -
  from ok have c: "contents \<noteq> []"
    by (auto simp: analyze_image_def)
  with ok obtain pil_img where i: "image_open ext contents = Some pil_img"
    by (cases "image_open ext contents") (auto simp: analyze_image_def)
  from ok c i obtain ex where e: "extract_features ext ELA_CFG pil_img = Inr ex"
    by (cases "extract_features ext ELA_CFG pil_img") (auto simp: analyze_image_def)
  obtain features ela_array threshold boxes feature_dict where
    x: "ex = (features, ela_array, threshold, boxes, feature_dict)"
    by (rule prod_cases5)
  from ok c i e x obtain heat where h: "ela_heatmap_normalized ela_array = Inr heat"
    by (cases "ela_heatmap_normalized ela_array") (auto simp: analyze_image_def Let_def)
  from ok c i e x h have "analysis resp =
       \<lparr>label = (if predict RF_MODEL (transform SCALER features) = 1
                  then ''FAKE'' else ''REAL''),
        probabilities = (fst (predict_proba RF_MODEL (transform SCALER features)),
                         snd (predict_proba RF_MODEL (transform SCALER features))),
        fake_probability = snd (predict_proba RF_MODEL (transform SCALER features)),
        is_fake = (predict RF_MODEL (transform SCALER features) = 1)\<rparr>"
    by (auto simp: analyze_image_def Let_def)
  then show ?thesis ..
qed

text \<open>
  Claim C7. The response passes the classifier's answers through: whenever the
  classifier's two probabilities sum to 1 within a tolerance, so do \<open>real\<close> and \<open>fake\<close>
  of the response, within the same tolerance; \<open>fake_probability\<close> is the \<open>fake\<close> entry;
  and when \<open>predict\<close> answers 1 exactly above a boundary \<open>b\<close> on the fake probability
  (the decision boundary that \<open>predict\<close> implies), the label is "FAKE" iff
  \<open>fake_probability\<close> exceeds \<open>b\<close>, and "REAL" otherwise.
\<close>

theorem analysis_panel_consistent:
  assumes ok: "analyze_image ext (RF_MODEL, SCALER, ELA_CFG) name contents = Inr resp"
    and contract:
      "\<forall>v. \<bar>fst (predict_proba RF_MODEL v) + snd (predict_proba RF_MODEL v) - 1\<bar> \<le> tol"
    and boundary: "\<forall>v. predict RF_MODEL v = 1 \<longleftrightarrow> b < snd (predict_proba RF_MODEL v)"
  shows "\<bar>fst (probabilities (analysis resp)) + snd (probabilities (analysis resp)) - 1\<bar> \<le> tol
     \<and> fake_probability (analysis resp) = snd (probabilities (analysis resp))
     \<and> (label (analysis resp) = ''FAKE'' \<longleftrightarrow> b < fake_probability (analysis resp))
     \<and> (label (analysis resp) = ''REAL'' \<longleftrightarrow> \<not> b < fake_probability (analysis resp))
     \<and> (is_fake (analysis resp) \<longleftrightarrow> label (analysis resp) = ''FAKE'')"
proof -
  from analyze_image_analysis [OF ok] obtain features where
    r: "analysis resp =
       \<lparr>label = (if predict RF_MODEL (transform SCALER features) = 1
                  then ''FAKE'' else ''REAL''),
        probabilities = (fst (predict_proba RF_MODEL (transform SCALER features)),
                         snd (predict_proba RF_MODEL (transform SCALER features))),
        fake_probability = snd (predict_proba RF_MODEL (transform SCALER features)),
        is_fake = (predict RF_MODEL (transform SCALER features) = 1)\<rparr>"
    by blast
  show ?thesis
    using contract [rule_format, of "transform SCALER features"]
          boundary [rule_format, of "transform SCALER features"]
    by (simp add: r)
qed

lemma analyze_image_stub:
  "\<exists>resp. analyze_image (stub_externals [[7, 7], [7, 7]]) (stub_model, stub_scaler, stub_config)
      ''upload.png'' [255, 216, 255] = Inr resp"
proof -
  have n: "concat [[7, 7], [7, 7 :: pixel]] \<noteq> []" by simp
  have u: "\<forall>v \<in> set (concat [[7, 7], [7, 7 :: pixel]]). v = 7" by simp
  from extract_features_ela_uniform [OF n u, of "stub_externals [[7, 7], [7, 7]]" stub_config]
  obtain features feature_dict where
    e: "extract_features_ela (stub_externals [[7, 7], [7, 7]]) stub_config [[7, 7], [7, 7]]
          = Inr (features, [[7, 7], [7, 7]], real (unat (7 :: pixel)), [], feature_dict)"
    by blast
  have p: "np_ptp [[7, 7], [7, 7]] = Inr 0"
    by (simp add: np_ptp_def np_max_def np_min_def)
  have x: "extract_features (stub_externals [[7, 7], [7, 7]]) stub_config ()
          = Inr (features, [[7, 7], [7, 7]], real (unat (7 :: pixel)), [], feature_dict)"
    using e by (simp add: extract_features_def stub_externals_def)
  have i: "image_open (stub_externals [[7, 7], [7, 7]]) [255, 216, 255] = Some ()"
    by (simp add: stub_externals_def)
  show ?thesis
    by (simp add: analyze_image_def i x ela_heatmap_zero_range [OF p] Let_def)
qed

theorem analysis_panel_consistent_witness:
  "\<exists>resp.
     analyze_image (stub_externals [[7, 7], [7, 7]]) (stub_model, stub_scaler, stub_config)
       ''upload.png'' [255, 216, 255] = Inr resp
   \<and> (\<forall>v. \<bar>fst (predict_proba stub_model v) + snd (predict_proba stub_model v) - 1\<bar> \<le> 0)
   \<and> (\<forall>v. predict stub_model v = 1 \<longleftrightarrow> 1 / 2 < snd (predict_proba stub_model v))
   \<and> fst (probabilities (analysis resp)) + snd (probabilities (analysis resp)) = 1
   \<and> label (analysis resp) = ''FAKE''
   \<and> 1 / 2 < fake_probability (analysis resp)"
proof -
  from analyze_image_stub obtain resp where
    ok: "analyze_image (stub_externals [[7, 7], [7, 7]]) (stub_model, stub_scaler, stub_config)
       ''upload.png'' [255, 216, 255] = Inr resp"
    by blast
  have c: "\<forall>v. \<bar>fst (predict_proba stub_model v) + snd (predict_proba stub_model v) - 1\<bar> \<le> 0"
    by (simp add: stub_model_def)
  have b: "\<forall>v. predict stub_model v = 1 \<longleftrightarrow> 1 / 2 < snd (predict_proba stub_model v)"
    by (simp add: stub_model_def)
  from analysis_panel_consistent [OF ok c b] analyze_image_analysis [OF ok]
  have "fst (probabilities (analysis resp)) + snd (probabilities (analysis resp)) = 1
   \<and> label (analysis resp) = ''FAKE''
   \<and> 1 / 2 < fake_probability (analysis resp)"
    by (auto simp: stub_model_def)
  with ok c b show ?thesis by blast
qed

section \<open>The area filter\<close>

text \<open>
  The pixels of a label all lie inside its bounding slice, so the count that the
  bounding-slice strategy takes inside the slice is the component's pixel count, as the
  length of the coordinate list is.
\<close>

lemma set_argwhere:
  "(y, x) \<in> set (argwhere labeled i)
   \<longleftrightarrow> y < length labeled \<and> x < length (labeled ! y) \<and> labeled ! y ! x = i"
proof
  assume "(y, x) \<in> set (argwhere labeled i)"
  then show "y < length labeled \<and> x < length (labeled ! y) \<and> labeled ! y ! x = i"
    by (auto simp: argwhere_def in_set_enumerate_eq)
next
  assume r: "y < length labeled \<and> x < length (labeled ! y) \<and> labeled ! y ! x = i"
  then have 1: "(y, labeled ! y) \<in> set (enumerate 0 labeled)"
    by (simp add: in_set_enumerate_eq)
  from r have "(x, i) \<in> set (filter (\<lambda>(x, l). l = i) (enumerate 0 (labeled ! y)))"
    by (simp add: in_set_enumerate_eq)
  then have 2: "(y, x) \<in> set (map (\<lambda>(x, l). (y, x))
                   (filter (\<lambda>(x, l). l = i) (enumerate 0 (labeled ! y))))"
    by force
  from 1 2 show "(y, x) \<in> set (argwhere labeled i)"
    unfolding argwhere_def set_concat set_map by force
qed

lemma sum_list_zero:
  assumes "\<forall>y \<in> set ys. f y = (0::nat)"
  shows "sum_list (map f ys) = 0"
  using assms by (induction ys) auto

lemma window_sum:
  fixes f :: "'a \<Rightarrow> nat"
  assumes "\<And>k. k < length xs \<Longrightarrow> f (xs ! k) \<noteq> 0 \<Longrightarrow> a \<le> k \<and> k < b"
  shows "sum_list (map f (take (b - a) (drop a xs))) = sum_list (map f xs)"
proof -
  have pre: "sum_list (map f (take a xs)) = 0"
  proof (rule sum_list_zero, rule ballI)
    fix y assume "y \<in> set (take a xs)"
    then obtain k where k: "k < length (take a xs)" "take a xs ! k = y"
      by (auto simp: in_set_conv_nth)
    then have "k < length xs" "k < a" "xs ! k = y" by auto
    with assms [of k] show "f y = 0" by auto
  qed
  have post: "sum_list (map f (drop (b - a) (drop a xs))) = 0"
  proof (rule sum_list_zero, rule ballI)
    fix y assume "y \<in> set (drop (b - a) (drop a xs))"
    then obtain k where k: "k < length (drop (b - a) (drop a xs))"
      "drop (b - a) (drop a xs) ! k = y"
      by (auto simp: in_set_conv_nth)
    then have "a + (b - a) + k < length xs" "xs ! (a + (b - a) + k) = y"
      by (auto simp: add.commute add.left_commute)
    moreover have "\<not> a + (b - a) + k < b" by arith
    ultimately show "f y = 0" using assms [of "a + (b - a) + k"] by blast
  qed
  have "take (b - a) (drop a xs) @ drop (b - a) (drop a xs) = drop a xs"
    by (rule append_take_drop_id)
  then have "take a xs @ take (b - a) (drop a xs) @ drop (b - a) (drop a xs) = xs"
    by (simp only: append_take_drop_id)
  then have "xs = take a xs @ take (b - a) (drop a xs) @ drop (b - a) (drop a xs)"
    by (rule sym)
  then have "sum_list (map f xs)
    = sum_list (map f (take a xs)) + sum_list (map f (take (b - a) (drop a xs)))
      + sum_list (map f (drop (b - a) (drop a xs)))"
    by (metis map_append sum_list_append add.assoc)
  with pre post show ?thesis by simp
qed

lemma length_filter_sum:
  "length (filter P xs) = sum_list (map (\<lambda>l. if P l then 1 else 0) xs)"
  by (induction xs) auto

lemma count_true_rows:
  "count_true (map (\<lambda>row. map P (h row)) g)
   = sum_list (map (\<lambda>row. length (filter P (h row))) g)"
  by (induction g) (auto simp: count_true_def filter_map comp_def)

lemma length_filter_concat:
  "length (filter P (concat g)) = sum_list (map (\<lambda>row. length (filter P row)) g)"
  by (induction g) auto

lemma lo_hi_bounds:
  assumes "v \<in> set xs"
  shows "fst (lo_hi xs) \<le> v \<and> v \<le> snd (lo_hi xs)"
proof (cases xs)
  case Nil
  with assms show ?thesis by simp
next
  case (Cons x r)
  with assms fold_min_le [of v x r] fold_max_ge [of v x r] show ?thesis
    by (simp add: lo_hi_def)
qed

lemma bounding_slice_lo_hi:
  assumes "coords \<noteq> []"
  shows "bounding_slice coords =
     Some ((fst (lo_hi (map fst coords)), snd (lo_hi (map fst coords)) + 1),
           (fst (lo_hi (map snd coords)), snd (lo_hi (map snd coords)) + 1))"
proof (cases coords)
  case Nil
  with assms show ?thesis by simp
next
  case (Cons c r)
  then show ?thesis by (cases c) (simp add: bounding_slice_def lo_hi_def)
qed

lemma crop_count:
  assumes "y0 = fst (lo_hi (map fst (argwhere labeled i)))"
    and "y1 = snd (lo_hi (map fst (argwhere labeled i))) + 1"
    and "x0 = fst (lo_hi (map snd (argwhere labeled i)))"
    and "x1 = snd (lo_hi (map snd (argwhere labeled i))) + 1"
  shows "int (count_true (map (map (\<lambda>l. l = i)) (crop ((y0, y1), (x0, x1)) labeled)))
         = component_size labeled i"
proof -
  let ?cnt = "\<lambda>row. length (filter (\<lambda>l. l = i) row)"
  have inside: "y0 \<le> y \<and> y < y1 \<and> x0 \<le> x \<and> x < x1"
    if "y < length labeled" "x < length (labeled ! y)" "labeled ! y ! x = i" for y x
  proof -
    from that have m: "(y, x) \<in> set (argwhere labeled i)" by (simp add: set_argwhere)
    then have "y \<in> set (map fst (argwhere labeled i))" "x \<in> set (map snd (argwhere labeled i))"
      by force+
    from lo_hi_bounds [OF this(1)] lo_hi_bounds [OF this(2)] assms show ?thesis by simp
  qed
  have row: "?cnt (take (x1 - x0) (drop x0 row)) = ?cnt row" if "row \<in> set labeled" for row
  proof -
    from that obtain y where y: "y < length labeled" "labeled ! y = row"
      by (auto simp: in_set_conv_nth)
    have "sum_list (map (\<lambda>l. if l = i then 1 else (0::nat)) (take (x1 - x0) (drop x0 row)))
          = sum_list (map (\<lambda>l. if l = i then 1 else 0) row)"
    proof (rule window_sum)
      fix k assume "k < length row" "(if row ! k = i then 1 else (0::nat)) \<noteq> 0"
      then have "k < length (labeled ! y)" "labeled ! y ! k = i"
        using y by (auto split: if_splits)
      from inside [OF y(1) this] show "x0 \<le> k \<and> k < x1" by simp
    qed
    then show ?thesis by (simp add: length_filter_sum)
  qed
  have "count_true (map (map (\<lambda>l. l = i)) (crop ((y0, y1), (x0, x1)) labeled))
        = sum_list (map (\<lambda>row. ?cnt (take (x1 - x0) (drop x0 row)))
                     (take (y1 - y0) (drop y0 labeled)))"
    by (simp add: crop_def count_true_rows comp_def)
  also have "\<dots> = sum_list (map ?cnt (take (y1 - y0) (drop y0 labeled)))"
  proof -
    have "\<forall>r \<in> set (take (y1 - y0) (drop y0 labeled)).
            ?cnt (take (x1 - x0) (drop x0 r)) = ?cnt r"
      using row by (meson in_set_dropD in_set_takeD)
    then show ?thesis by (metis (mono_tags, lifting) map_eq_conv)
  qed
  also have "\<dots> = sum_list (map ?cnt labeled)"
  proof (rule window_sum)
    fix k assume k: "k < length labeled" "?cnt (labeled ! k) \<noteq> 0"
    then have "filter (\<lambda>l. l = i) (labeled ! k) \<noteq> []" by simp
    then obtain l where "l \<in> set (labeled ! k)" "l = i"
      by (auto simp: filter_empty_conv)
    then obtain x where "x < length (labeled ! k)" "labeled ! k ! x = i"
      by (auto simp: in_set_conv_nth)
    from inside [OF k(1) this] show "y0 \<le> k \<and> k < y1" by simp
  qed
  also have "\<dots> = length (filter (\<lambda>l. l = i) (concat labeled))"
    by (simp add: length_filter_concat)
  finally show ?thesis by (simp add: component_size_def)
qed


lemma lo_hi_np:
  assumes "xs \<noteq> []"
  shows "np_min xs = Inr (fst (lo_hi xs))" and "np_max xs = Inr (snd (lo_hi xs))"
  using assms by (cases xs; simp add: np_min_def np_max_def lo_hi_def)+

lemma component_size_argwhere:
  "component_size labeled i = int (length (argwhere labeled i))"
  by (simp add: component_size_def length_argwhere)

lemma slice_step_survives:
  "slice_step ela_array labeled min_area (i, bounding_slice (argwhere labeled i)) (bs, ss, ms)
   = (if survives min_area labeled slice_box i
      then (bs @ [slice_box labeled i], ss @ [component_size labeled i],
            ms @ [slice_intensity ela_array labeled i])
      else (bs, ss, ms))"
proof (cases "argwhere labeled i = []")
  case True
  then have "\<not> survives min_area labeled slice_box i"
    by (simp add: survives_def slice_box_def lo_hi_def)
  with True show ?thesis by (simp add: slice_step_def bounding_slice_def)
next
  case False
  obtain y_min y_max x_min x_max where
    l: "lo_hi (map fst (argwhere labeled i)) = (y_min, y_max)"
       "lo_hi (map snd (argwhere labeled i)) = (x_min, x_max)"
    by (metis surj_pair)
  have b: "bounding_slice (argwhere labeled i)
           = Some ((y_min, Suc y_max), (x_min, Suc x_max))"
    using bounding_slice_lo_hi [OF False] by (simp add: l)
  have c: "int (count_true (map (map (\<lambda>l. l = i))
              (crop ((y_min, Suc y_max), (x_min, Suc x_max)) labeled)))
           = component_size labeled i"
    by (rule crop_count) (simp_all add: l)
  show ?thesis
    by (simp add: b slice_step_def Let_def c survives_def slice_box_def slice_intensity_def l)
qed

lemma coords_step_survives:
  assumes "argwhere labeled i \<noteq> []"
  shows "coords_step ela_array labeled min_area i (bs, ss, ms)
   = Inr (if survives min_area labeled coords_box i
          then (bs @ [coords_box labeled i], ss @ [component_size labeled i],
                ms @ [coords_intensity ela_array labeled i])
          else (bs, ss, ms))"
proof -
  obtain y_min y_max x_min x_max where
    l: "lo_hi (map fst (argwhere labeled i)) = (y_min, y_max)"
       "lo_hi (map snd (argwhere labeled i)) = (x_min, x_max)"
    by (metis surj_pair)
  from assms have ne: "map fst (argwhere labeled i) \<noteq> []" "map snd (argwhere labeled i) \<noteq> []"
    by simp_all
  have n: "np_min (map fst (argwhere labeled i)) = Inr y_min"
          "np_max (map fst (argwhere labeled i)) = Inr y_max"
          "np_min (map snd (argwhere labeled i)) = Inr x_min"
          "np_max (map snd (argwhere labeled i)) = Inr x_max"
    using lo_hi_np [OF ne(1)] lo_hi_np [OF ne(2)] by (simp_all add: l)
  show ?thesis
    by (simp add: coords_step_def Let_def n survives_def coords_box_def coords_intensity_def l
        component_size_argwhere)
qed

lemma slice_fold_survives:
  "fold (slice_step ela_array labeled min_area)
        (map (\<lambda>i. (i, bounding_slice (argwhere labeled i))) is) (bs, ss, ms)
   = (bs @ map (slice_box labeled) (filter (survives min_area labeled slice_box) is),
      ss @ map (component_size labeled) (filter (survives min_area labeled slice_box) is),
      ms @ map (slice_intensity ela_array labeled)
             (filter (survives min_area labeled slice_box) is))"
  by (induction "is" arbitrary: bs ss ms) (simp_all add: slice_step_survives)

lemma coords_loop_survives:
  assumes "\<forall>i \<in> set is. argwhere labeled i \<noteq> []"
  shows "coords_loop ela_array labeled min_area is (bs, ss, ms)
   = Inr (bs @ map (coords_box labeled) (filter (survives min_area labeled coords_box) is),
          ss @ map (component_size labeled) (filter (survives min_area labeled coords_box) is),
          ms @ map (coords_intensity ela_array labeled)
                 (filter (survives min_area labeled coords_box) is))"
  using assms
  by (induction "is" arbitrary: bs ss ms) (simp_all add: coords_step_survives)

lemma enumerate_find_objects:
  "enumerate 1 (find_objects labeled)
   = map (\<lambda>i. (i, bounding_slice (argwhere labeled i))) [1..<Suc (max_label labeled)]"
  by (simp add: find_objects_def enumerate_eq_zip zip_map_self del: upt_Suc)

lemma slice_strategy_survives:
  "slice_strategy ela_array labeled min_area
   = (map (slice_box labeled)
        (filter (survives min_area labeled slice_box) [1..<Suc (max_label labeled)]),
      map (component_size labeled)
        (filter (survives min_area labeled slice_box) [1..<Suc (max_label labeled)]),
      map (slice_intensity ela_array labeled)
        (filter (survives min_area labeled slice_box) [1..<Suc (max_label labeled)]))"
  unfolding slice_strategy_def enumerate_find_objects
  using slice_fold_survives [of ela_array labeled min_area _ "[]" "[]" "[]"] by simp

lemma coords_strategy_survives:
  assumes "\<forall>i \<in> {1..num_features}. 0 < component_size labeled i"
  shows "coords_strategy ela_array labeled num_features min_area
   = Inr (map (coords_box labeled)
            (filter (survives min_area labeled coords_box) [1..<Suc num_features]),
          map (component_size labeled)
            (filter (survives min_area labeled coords_box) [1..<Suc num_features]),
          map (coords_intensity ela_array labeled)
            (filter (survives min_area labeled coords_box) [1..<Suc num_features]))"
proof -
  have "\<forall>i \<in> set [1..<Suc num_features]. argwhere labeled i \<noteq> []"
    using assms by (auto simp: component_size_argwhere)
  from coords_loop_survives [OF this, of ela_array min_area "[]" "[]" "[]"]
  show ?thesis by (simp add: coords_strategy_def)
qed

text \<open>
  Claim C8. Whenever \<open>find_suspicious_regions\<close> reaches the labelling, with
  \<open>num_features\<close> positive, its result is the list of the components that pass the
  filter, in label order: a component passes exactly when its pixel count is not below
  \<open>min_area\<close> and the width and height that the strategy measures exceed 10. This
  holds in the bounding-slice branch (more than 1000 components) and in the
  coordinate branch (at most 1000, every label occurring). So a component of exactly
  \<open>min_area\<close> pixels is retained, subject to the dimension filter, and one of
  \<open>min_area - 1\<close> pixels is discarded.
\<close>

theorem area_filter_strict:
  assumes "count_true (suspicious_mask ela_array threshold) \<noteq> 0"
    and "ndimage_label ext (suppress_noise ext ela_array (suspicious_mask ela_array threshold))
         = (labeled_array, num_features)"
    and "0 < num_features"
  shows
   "(1000 < num_features \<longrightarrow>
       (let kept = filter (survives min_area labeled_array slice_box)
                     [1..<Suc (max_label labeled_array)]
        in find_suspicious_regions ext ela_array threshold min_area
           = Inr (map (slice_box labeled_array) kept,
                  map (component_size labeled_array) kept,
                  map (slice_intensity ela_array labeled_array) kept)))
    \<and> (num_features \<le> 1000
        \<and> (\<forall>i \<in> {1..num_features}. 0 < component_size labeled_array i) \<longrightarrow>
       (let kept = filter (survives min_area labeled_array coords_box) [1..<Suc num_features]
        in find_suspicious_regions ext ela_array threshold min_area
           = Inr (map (coords_box labeled_array) kept,
                  map (component_size labeled_array) kept,
                  map (coords_intensity ela_array labeled_array) kept)))
    \<and> (\<forall>box_of i.
          component_size labeled_array i = min_area
          \<and> (case box_of labeled_array i of (x, y, width, height) \<Rightarrow> 10 < width \<and> 10 < height)
          \<longrightarrow> survives min_area labeled_array box_of i)
    \<and> (\<forall>box_of i.
          component_size labeled_array i = min_area - 1
          \<longrightarrow> \<not> survives min_area labeled_array box_of i)"
proof -
  have s: "find_suspicious_regions ext ela_array threshold min_area
           = Inr (slice_strategy ela_array labeled_array min_area)"
    if "1000 < num_features"
    using assms that by (simp add: find_suspicious_regions_def)
  have c: "find_suspicious_regions ext ela_array threshold min_area
           = coords_strategy ela_array labeled_array num_features min_area"
    if "num_features \<le> 1000"
    using assms that by (simp add: find_suspicious_regions_def)
  show ?thesis
    using s c
    by (auto simp: Let_def slice_strategy_survives coords_strategy_survives survives_def)
qed

theorem area_filter_strict_witness:
  "count_true (suspicious_mask ell12_map 100) = 23
   \<and> component_size ell12_labels 1 = 23
   \<and> find_suspicious_regions (stub_externals ell12_map) ell12_map 100 23
       = Inr ([(0, 0, 11, 11)], [23], [200])
   \<and> find_suspicious_regions (stub_externals ell12_map) ell12_map 100 24
       = Inr ([], [], [])
   \<and> find_suspicious_regions (stub_externals_many ell12_map) ell12_map 100 23
       = Inr ([(0, 0, 12, 12)], [23], [200])
   \<and> find_suspicious_regions (stub_externals_many ell12_map) ell12_map 100 24
       = Inr ([], [], [])"
proof -
  have h1: "count_true (suspicious_mask ell12_map 100) = 23" by code_simp
  then have n: "count_true (suspicious_mask ell12_map 100) \<noteq> 0" by simp
  have l: "ndimage_label (stub_externals ell12_map)
     (suppress_noise (stub_externals ell12_map) ell12_map (suspicious_mask ell12_map 100))
     = (ell12_labels, 1)" by code_simp
  have lm: "ndimage_label (stub_externals_many ell12_map)
     (suppress_noise (stub_externals_many ell12_map) ell12_map (suspicious_mask ell12_map 100))
     = (ell12_labels, 1001)" by code_simp
  have sz: "component_size ell12_labels (Suc 0) = 23" by code_simp
  have cb: "coords_box ell12_labels (Suc 0) = (0, 0, 11, 11)" by code_simp
  have sb: "slice_box ell12_labels (Suc 0) = (0, 0, 12, 12)" by code_simp
  have ci: "coords_intensity ell12_map ell12_labels (Suc 0) = 200" by code_simp
  have si: "slice_intensity ell12_map ell12_labels (Suc 0) = 200" by code_simp
  have ml: "max_label ell12_labels = Suc 0" by code_simp
  have sz1: "component_size ell12_labels 1 = 23" using sz by simp
  have occ: "\<forall>i \<in> {1..1}. 0 < component_size ell12_labels i" by (simp add: sz)
  have c23: "survives 23 ell12_labels coords_box (Suc 0)" by (simp add: survives_def sz cb)
  have c24: "\<not> survives 24 ell12_labels coords_box (Suc 0)" by (simp add: survives_def sz)
  have s23: "survives 23 ell12_labels slice_box (Suc 0)" by (simp add: survives_def sz sb)
  have s24: "\<not> survives 24 ell12_labels slice_box (Suc 0)" by (simp add: survives_def sz)
  have a: "find_suspicious_regions (stub_externals ell12_map) ell12_map 100 23
       = Inr ([(0, 0, 11, 11)], [23], [200])"
    using area_filter_strict [OF n l, of 23] occ
    by (simp add: Let_def c23 sz cb ci)
  have b: "find_suspicious_regions (stub_externals ell12_map) ell12_map 100 24
       = Inr ([], [], [])"
    using area_filter_strict [OF n l, of 24] occ
    by (simp add: Let_def c24)
  have c: "find_suspicious_regions (stub_externals_many ell12_map) ell12_map 100 23
       = Inr ([(0, 0, 12, 12)], [23], [200])"
    using area_filter_strict [OF n lm, of 23]
    by (simp add: Let_def ml s23 sz sb si)
  have d: "find_suspicious_regions (stub_externals_many ell12_map) ell12_map 100 24
       = Inr ([], [], [])"
    using area_filter_strict [OF n lm, of 24]
    by (simp add: Let_def ml s24)
  from h1 sz1 a b c d show ?thesis by blast
qed

end
